theory Spec2Isabelle
  imports Complex_Main "HOL-Library.Sublist"
begin

section \<open>Numbers, coordinates and the shared geometry\<close>

text \<open>
  The three front ends and the relay are JavaScript.  A JavaScript number is modelled by
  a \<^typ>\<open>real\<close> (the finite values; \<open>null\<close>, \<open>undefined\<close> and \<open>NaN\<close> are the
  \<open>None\<close> of an option where the code tests for them), a \<open>Date.now()\<close> reading by an
  \<^typ>\<open>int\<close> of milliseconds, an array by a list, an object by a record.  Mutable
  component state (React state and refs, the relay's module variables) is passed
  explicitly: every handler takes the state and returns the new one, together with
  what it sent on the socket.
\<close>

type_synonym latlon = "real \<times> real"

text \<open>
  \<open>toRad\<close> and \<open>haversineMeters\<close> of the auto-tune front end; \<open>haversineA\<close> is the
  local \<open>a\<close> of \<open>haversineMeters\<close>, the argument whose root goes into the arc sine.
\<close>

definition toRad :: "real \<Rightarrow> real" where
  "toRad d = (d * pi) / 180"

definition haversineA :: "real \<Rightarrow> real \<Rightarrow> real \<Rightarrow> real \<Rightarrow> real" where
  "haversineA lat1 lon1 lat2 lon2 =
     (let dLat = toRad (lat2 - lat1);
          dLon = toRad (lon2 - lon1)
      in (sin (dLat / 2))\<^sup>2 +
         cos (toRad lat1) * cos (toRad lat2) * (sin (dLon / 2))\<^sup>2)"

definition haversineMeters :: "real \<Rightarrow> real \<Rightarrow> real \<Rightarrow> real \<Rightarrow> real" where
  "haversineMeters lat1 lon1 lat2 lon2 =
     (let R = 6371000;
          a = haversineA lat1 lon1 lat2 lon2
      in 2 * R * arcsin (sqrt a))"

subsection \<open>Auto-tune thresholds by speed\<close>

record auto_params =
  cooldown :: int
  sensitivity :: real

definition getAutoParams :: "real \<Rightarrow> auto_params" where
  "getAutoParams speedKmh =
     (if speedKmh < 5 then \<lparr>cooldown = 2500, sensitivity = 10\<rparr>
      else if speedKmh < 25 then \<lparr>cooldown = 1800, sensitivity = 12\<rparr>
      else if speedKmh < 60 then \<lparr>cooldown = 1200, sensitivity = 14\<rparr>
      else \<lparr>cooldown = 800, sensitivity = 16\<rparr>)"


section \<open>The auto-tune front end\<close>

text \<open>
  The component's state: the React state variables and refs that the position callback
  and the motion handler read or write.  A path point is the array \<open>[lat, lon]\<close>, a
  pair here; \<open>position\<close> is the object \<open>{lat, lon}\<close>.
\<close>

record coords =
  lat :: real
  lon :: real

record geo =
  geo_lat :: real
  geo_lon :: real
  geo_t :: int

text \<open>
  \<open>pos.coords\<close> of the Geolocation API.  \<open>speed\<close> is \<open>None\<close> when the device
  reports \<open>null\<close> (or \<open>NaN\<close>): \<open>typeof speed === "number" && speed >= 0\<close> is false
  for both.
\<close>

record pos_coords =
  latitude :: real
  longitude :: real
  speed :: "real option"

text \<open>
  \<open>event.accelerationIncludingGravity\<close>: the object may be missing, and so may each axis
  (\<open>g.x || 0\<close> reads a missing axis as 0).
\<close>

record gravity_reading =
  g_x :: "real option"
  g_y :: "real option"
  g_z :: "real option"

type_synonym motion_event = "gravity_reading option"

record accel_reading =
  acc_x :: real
  acc_y :: real
  acc_z :: real
  acc_linear :: real

text \<open>
  The bump object published by the two threshold front ends.  \<open>bump_id\<close> is the integer
  that \<open>String(now)\<close> writes out, \<open>bump_time\<close> the locale string of the clock (an
  input of the handler), \<open>bump_accel\<close> the number that \<open>linear.toFixed(2)\<close> writes
  out; the baseline front end has no \<open>speedKmh\<close> field (\<open>None\<close>).
\<close>

record ui_bump =
  bump_id :: int
  bump_time :: string
  bump_coords :: coords
  bump_accel :: real
  bump_speedKmh :: "real option"

text \<open>
  \<open>x.toFixed(f)\<close> as the number its result denotes: the multiple of \<open>10\<^sup>-\<^sup>f\<close> nearest
  to \<open>x\<close>, the larger one at a tie, the sign handled apart.
\<close>

definition toFixed :: "nat \<Rightarrow> real \<Rightarrow> real" where
  "toFixed f x =
     (if x < 0 then - (real_of_int \<lfloor>(- x) * 10 ^ f + 1 / 2\<rfloor> / 10 ^ f)
      else real_of_int \<lfloor>x * 10 ^ f + 1 / 2\<rfloor> / 10 ^ f)"

record app =
  position :: coords
  speedKmh :: real
  accel :: accel_reading
  bumps :: "ui_bump list"
  detecting :: bool
  connected :: bool
  autoTune :: bool
  manualSensitivity :: real
  manualCooldownMs :: int
  lastGeoRef :: "geo option"
  lastBumpRef :: int
  path :: "latlon list"
  redSegments :: "latlon list list"

definition initial_app :: app where
  "initial_app =
     \<lparr>position = \<lparr>lat = 28.6139, lon = 77.209\<rparr>, speedKmh = 0,
      accel = \<lparr>acc_x = 0, acc_y = 0, acc_z = 0, acc_linear = 0\<rparr>, bumps = [],
      detecting = False, connected = False, autoTune = True, manualSensitivity = 12,
      manualCooldownMs = 2000, lastGeoRef = None, lastBumpRef = 0, path = [],
      redSegments = []\<rparr>"

definition effectiveCooldown :: "app \<Rightarrow> int" where
  "effectiveCooldown st =
     (if autoTune st then cooldown (getAutoParams (speedKmh st)) else manualCooldownMs st)"

definition effectiveSensitivity :: "app \<Rightarrow> real" where
  "effectiveSensitivity st =
     (if autoTune st then sensitivity (getAutoParams (speedKmh st)) else manualSensitivity st)"

subsection \<open>Position callback\<close>

text \<open>
  The updater given to \<open>setPath\<close>: append unless the point equals the last one, and drop
  the head when the length passes 10000.
\<close>

definition appendPath :: "latlon list \<Rightarrow> coords \<Rightarrow> latlon list" where
  "appendPath prev next =
     (if prev = [] \<or> fst (last prev) \<noteq> lat next \<or> snd (last prev) \<noteq> lon next
      then (let updated = prev @ [(lat next, lon next)]
            in if length updated > 10000 then tl updated else updated)
      else prev)"

text \<open>
  The speed part of \<open>handlePos\<close>: the value handed to \<open>setSpeedKmh\<close>, or \<open>None\<close> when
  \<open>setSpeedKmh\<close> is not called.  Every real is finite, so \<open>Number.isFinite\<close> holds
  of every value the model can produce.
\<close>

definition speedUpdate :: "pos_coords \<Rightarrow> int \<Rightarrow> geo option \<Rightarrow> real option" where
  "speedUpdate pos now lastGeo =
     (let spdMs0 = (case speed pos of
                      Some s \<Rightarrow> if s \<ge> 0 then Some s else None
                    | None \<Rightarrow> None);
          spdMs = (case spdMs0 of
                     Some s \<Rightarrow> Some s
                   | None \<Rightarrow>
                      (case lastGeo of
                         None \<Rightarrow> None
                       | Some g \<Rightarrow>
                          (let dt = real_of_int (now - geo_t g) / 1000
                           in if dt > 0.5 \<and> dt < 15
                              then Some (haversineMeters (geo_lat g) (geo_lon g)
                                           (latitude pos) (longitude pos) / dt)
                              else None)))
      in (case spdMs of
            Some s \<Rightarrow> Some (max 0 (min 180 (s * 3.6)))
          | None \<Rightarrow> None))"

definition handlePos :: "pos_coords \<Rightarrow> int \<Rightarrow> app \<Rightarrow> app" where
  "handlePos pos now st =
     (let next = \<lparr>lat = latitude pos, lon = longitude pos\<rparr>;
          st1 = st\<lparr>position := next\<rparr>;
          st2 = st1\<lparr>path := appendPath (path st1) next\<rparr>;
          st3 = (case speedUpdate pos now (lastGeoRef st2) of
                   Some kmh \<Rightarrow> st2\<lparr>speedKmh := kmh\<rparr>
                 | None \<Rightarrow> st2)
      in st3\<lparr>lastGeoRef :=
               Some \<lparr>geo_lat = latitude pos, geo_lon = longitude pos, geo_t = now\<rparr>\<rparr>)"

subsection \<open>Red segments\<close>

abbreviation MAX_BACK_METERS :: real where
  "MAX_BACK_METERS \<equiv> 30"

text \<open>
  The loop \<open>for (let i = path.length - 1; i > 0; i--)\<close> of \<open>addRedSegmentNear\<close>, by
  recursion on \<open>i\<close>; it returns the segment and the accumulated distance.
\<close>

fun backtrack :: "latlon list \<Rightarrow> nat \<Rightarrow> latlon list \<Rightarrow> real \<Rightarrow> latlon list \<times> real" where
  "backtrack pth 0 seg acc = (seg, acc)"
| "backtrack pth (Suc j) seg acc =
     (let a = pth ! Suc j;
          b = pth ! j;
          seg' = a # seg;
          acc' = acc + haversineMeters (fst a) (snd a) (fst b) (snd b)
      in if acc' \<ge> MAX_BACK_METERS then (seg', acc') else backtrack pth j seg' acc')"

text \<open>
  The length of a polyline: the sum of the great-circle distances between consecutive
  points, each measured as the loop measures it, from the newer point to the older.
\<close>

fun arc_length :: "latlon list \<Rightarrow> real" where
  "arc_length (b # a # rest) =
     haversineMeters (fst a) (snd a) (fst b) (snd b) + arc_length (a # rest)"
| "arc_length _ = 0"

text \<open>The segment \<open>addRedSegmentNear\<close> appends, if any.\<close>

definition redSegmentNear :: "real \<Rightarrow> real \<Rightarrow> latlon list \<Rightarrow> latlon list option" where
  "redSegmentNear centerLat centerLon pth =
     (if length pth < 2 then None
      else (let seg = fst (backtrack pth (length pth - 1) [(centerLat, centerLon)] 0)
            in if length seg \<ge> 2 then Some seg else None))"

definition addRedSegmentNear :: "real \<Rightarrow> real \<Rightarrow> app \<Rightarrow> app" where
  "addRedSegmentNear centerLat centerLon st =
     (case redSegmentNear centerLat centerLon (path st) of
        None \<Rightarrow> st
      | Some seg \<Rightarrow> st\<lparr>redSegments := redSegments st @ [seg]\<rparr>)"

subsection \<open>Motion handler\<close>

definition axis :: "real option \<Rightarrow> real" where
  "axis v = (case v of None \<Rightarrow> 0 | Some r \<Rightarrow> r)"

definition reading :: "motion_event \<Rightarrow> accel_reading" where
  "reading event =
     (let g = (case event of
                 None \<Rightarrow> \<lparr>g_x = Some 0, g_y = Some 0, g_z = Some 0\<rparr>
               | Some g \<Rightarrow> g);
          x = axis (g_x g);
          y = axis (g_y g);
          z = axis (g_z g);
          total = sqrt (x * x + y * y + z * z);
          linear = \<bar>total - 9.81\<bar>
      in \<lparr>acc_x = x, acc_y = y, acc_z = z, acc_linear = linear\<rparr>)"

type_synonym emission = "string \<times> ui_bump"

text \<open>\<open>highThreshold\<close> of the handler, from the sensitivity in force.\<close>

definition highThreshold :: "real \<Rightarrow> real" where
  "highThreshold s = max 16 (s + 3)"

text \<open>
  The \<open>devicemotion\<close> listener.  \<open>now\<close> is \<open>Date.now()\<close>, \<open>timeStr\<close> is
  \<open>new Date().toLocaleTimeString()\<close>.  The result is the new state and what was
  emitted on the socket.
\<close>

definition handler :: "motion_event \<Rightarrow> int \<Rightarrow> string \<Rightarrow> app \<Rightarrow> app \<times> emission list" where
  "handler event now timeStr st =
     (let r = reading event;
          linear = acc_linear r;
          st1 = st\<lparr>accel := r\<rparr>
      in if linear > effectiveSensitivity st \<and> now - lastBumpRef st > effectiveCooldown st
         then (let bump = \<lparr>bump_id = now, bump_time = timeStr, bump_coords = position st,
                            bump_accel = toFixed 2 linear,
                            bump_speedKmh = Some (toFixed 1 (speedKmh st))\<rparr>;
                   st2 = st1\<lparr>lastBumpRef := now, bumps := bump # bumps st1\<rparr>;
                   st3 = (if linear \<ge> highThreshold (effectiveSensitivity st)
                          then addRedSegmentNear (lat (position st)) (lon (position st)) st2
                          else st2)
               in (st3, [(''send-bump'', bump)]))
         else (st1, []))"

text \<open>What the component does with a message from the socket.\<close>

definition app_receive :: "string \<Rightarrow> ui_bump \<Rightarrow> app \<Rightarrow> app" where
  "app_receive name b st =
     (if name = ''new-bump'' then st\<lparr>bumps := b # bumps st\<rparr> else st)"

text \<open>
  One session of the component: every callback that changes the state, in the order of
  arrival.  The motion listener is registered only while \<open>detecting\<close>.
\<close>

datatype app_event =
    GeoFix pos_coords int
  | DeviceMotion motion_event int string
  | SocketMessage string ui_bump
  | SocketConnected bool
  | SetDetecting bool
  | SetAutoTune bool
  | SetManualSensitivity real
  | SetManualCooldownMs int

fun app_step :: "app \<Rightarrow> app_event \<Rightarrow> app \<times> emission list" where
  "app_step st (GeoFix pos now) = (handlePos pos now st, [])"
| "app_step st (DeviceMotion event now timeStr) =
     (if detecting st then handler event now timeStr st else (st, []))"
| "app_step st (SocketMessage name b) = (app_receive name b st, [])"
| "app_step st (SocketConnected c) = (st\<lparr>connected := c\<rparr>, [])"
| "app_step st (SetDetecting d) = (st\<lparr>detecting := d\<rparr>, [])"
| "app_step st (SetAutoTune a) = (st\<lparr>autoTune := a\<rparr>, [])"
| "app_step st (SetManualSensitivity s) = (st\<lparr>manualSensitivity := s\<rparr>, [])"
| "app_step st (SetManualCooldownMs c) = (st\<lparr>manualCooldownMs := c\<rparr>, [])"

fun app_run :: "app \<Rightarrow> app_event list \<Rightarrow> app \<times> emission list" where
  "app_run st [] = (st, [])"
| "app_run st (e # es) =
     (let (st1, out1) = app_step st e;
          (st2, out2) = app_run st1 es
      in (st2, out1 @ out2))"

section \<open>The baseline front end\<close>

text \<open>
  The same motion handler with the two sliders as its only tuning: no speed, no path,
  no red segments, and a bump object without \<open>speedKmh\<close>.
\<close>

record base_app =
  base_position :: coords
  base_bumps :: "ui_bump list"
  base_accel :: accel_reading
  base_detecting :: bool
  base_connected :: bool
  base_sensitivity :: real
  base_cooldownMs :: int
  base_lastBumpRef :: int

definition initial_base_app :: base_app where
  "initial_base_app =
     \<lparr>base_position = \<lparr>lat = 28.6139, lon = 77.209\<rparr>, base_bumps = [],
      base_accel = \<lparr>acc_x = 0, acc_y = 0, acc_z = 0, acc_linear = 0\<rparr>,
      base_detecting = False, base_connected = False, base_sensitivity = 12,
      base_cooldownMs = 2000, base_lastBumpRef = 0\<rparr>"

definition base_handler ::
  "motion_event \<Rightarrow> int \<Rightarrow> string \<Rightarrow> base_app \<Rightarrow> base_app \<times> emission list" where
  "base_handler event now timeStr st =
     (let r = reading event;
          linear = acc_linear r;
          st1 = st\<lparr>base_accel := r\<rparr>
      in if linear > base_sensitivity st \<and> now - base_lastBumpRef st > base_cooldownMs st
         then (let bump = \<lparr>bump_id = now, bump_time = timeStr,
                            bump_coords = base_position st,
                            bump_accel = toFixed 2 linear, bump_speedKmh = None\<rparr>
               in (st1\<lparr>base_lastBumpRef := now, base_bumps := bump # base_bumps st1\<rparr>,
                   [(''send-bump'', bump)]))
         else (st1, []))"

definition base_receive :: "string \<Rightarrow> ui_bump \<Rightarrow> base_app \<Rightarrow> base_app" where
  "base_receive name b st =
     (if name = ''new-bump'' then st\<lparr>base_bumps := b # base_bumps st\<rparr> else st)"

text \<open>The baseline listener over a list of samples \<open>(event, now, timeStr)\<close>.\<close>

fun base_run :: "base_app \<Rightarrow> (motion_event \<times> int \<times> string) list \<Rightarrow> base_app \<times> emission list" where
  "base_run st [] = (st, [])"
| "base_run st ((event, now, timeStr) # rest) =
     (let (st1, out1) = base_handler event now timeStr st;
          (st2, out2) = base_run st1 rest
      in (st2, out1 @ out2))"

section \<open>The jerk-based front end\<close>

text \<open>
  The component that talks to the relay in the relay's own vocabulary (\<open>pos\<close>,
  \<open>bump\<close>, \<open>heat:init\<close>).  Its state is the refs \<open>recentAccel\<close>, \<open>hpState\<close>,
  \<open>lastBumpTs\<close>, \<open>lastPosRef\<close>, the variable \<open>prev\<close> of the listener's closure (\<open>prevSample\<close>), and
  the dots drawn on the heat layer.  \<open>lastPosRef\<close> starts with \<open>lat\<close> and \<open>lng\<close> both
  \<open>null\<close> and is only ever replaced by an object with both set, so the pair is one
  option.
\<close>

record axes =
  ax :: real
  ay :: real
  az :: real

record prev_sample =
  prev_ax :: real
  prev_ay :: real
  prev_az :: real
  prev_t :: real

record last_pos =
  lp_latlng :: "(real \<times> real) option"
  lp_speed :: real
  lp_ts :: int

record heat_bump =
  hb_deviceId :: string
  hb_lat :: real
  hb_lng :: real
  hb_score :: real
  hb_ts :: int

record pos_data =
  pd_deviceId :: string
  pd_lat :: real
  pd_lng :: real
  pd_speed :: real
  pd_ts :: int

record tracker =
  deviceId :: string
  recentAccel :: axes
  hpState :: axes
  lastBumpTs :: int
  lastPosRef :: last_pos
  prevSample :: prev_sample
  heatLayer :: "heat_bump list"

definition initial_tracker :: "string \<Rightarrow> tracker" where
  "initial_tracker dev =
     \<lparr>deviceId = dev, recentAccel = \<lparr>ax = 0, ay = 0, az = 0\<rparr>,
      hpState = \<lparr>ax = 0, ay = 0, az = 0\<rparr>, lastBumpTs = 0,
      lastPosRef = \<lparr>lp_latlng = None, lp_speed = 0, lp_ts = 0\<rparr>,
      prevSample = \<lparr>prev_ax = 0, prev_ay = 0, prev_az = 0, prev_t = 0\<rparr>, heatLayer = []\<rparr>"

abbreviation hpAlpha :: real where "hpAlpha \<equiv> 0.8"
abbreviation jerkThresh :: real where "jerkThresh \<equiv> 3.0"
abbreviation minGapMs :: int where "minGapMs \<equiv> 1500"
abbreviation minSpeedMps :: real where "minSpeedMps \<equiv> 2.0"

text \<open>The three axes of a sample, a missing reading or axis read as 0.\<close>

definition raw_axes :: "motion_event \<Rightarrow> axes" where
  "raw_axes e =
     \<lparr>ax = (case e of None \<Rightarrow> 0 | Some g \<Rightarrow> axis (g_x g)),
      ay = (case e of None \<Rightarrow> 0 | Some g \<Rightarrow> axis (g_y g)),
      az = (case e of None \<Rightarrow> 0 | Some g \<Rightarrow> axis (g_z g))\<rparr>"

text \<open>The high-pass step of \<open>onMotion\<close>: the new \<open>hpState\<close>.\<close>

definition highpass :: "axes \<Rightarrow> axes \<Rightarrow> axes \<Rightarrow> axes" where
  "highpass hp raw recent =
     (let a = hpAlpha
      in \<lparr>ax = a * (ax hp + ax raw - ax recent),
          ay = a * (ay hp + ay raw - ay recent),
          az = a * (az hp + az raw - az recent)\<rparr>)"

text \<open>\<open>jerkMag\<close> of \<open>onMotion\<close>, from the new \<open>hpState\<close>, \<open>prev\<close> and the clock \<open>t\<close>.\<close>

definition jerk :: "axes \<Rightarrow> prev_sample \<Rightarrow> real \<Rightarrow> real" where
  "jerk hp pr t =
     (let dt = (t - prev_t pr) / 1000;
          jx = (if dt > 0 then (ax hp - prev_ax pr) / dt else 0);
          jy = (if dt > 0 then (ay hp - prev_ay pr) / dt else 0);
          jz = (if dt > 0 then (az hp - prev_az pr) / dt else 0)
      in sqrt (jx * jx + jy * jy + jz * jz))"

text \<open>
  The \<open>devicemotion\<close> listener: \<open>t\<close> is \<open>performance.now()\<close>, \<open>now\<close> is
  \<open>Date.now()\<close>.  The result is \<open>jerkMag\<close>, the new state and what was emitted.
\<close>

definition onMotion ::
  "motion_event \<Rightarrow> real \<Rightarrow> int \<Rightarrow> tracker \<Rightarrow> real \<times> tracker \<times> (string \<times> heat_bump) list" where
  "onMotion e t now st =
     (let raw = raw_axes e;
          hp = highpass (hpState st) raw (recentAccel st);
          jerkMag = jerk hp (prevSample st) t;
          st1 = st\<lparr>hpState := hp, recentAccel := raw,
                   prevSample := \<lparr>prev_ax = ax hp, prev_ay = ay hp, prev_az = az hp, prev_t = t\<rparr>\<rparr>;
          lastPos = lastPosRef st
      in (case lp_latlng lastPos of
            None \<Rightarrow> (jerkMag, st1, [])
          | Some (la, lg) \<Rightarrow>
              if lp_speed lastPos < minSpeedMps then (jerkMag, st1, [])
              else if now - lastBumpTs st < minGapMs then (jerkMag, st1, [])
              else if jerkMag > jerkThresh
              then (let score = min 5 ((jerkMag - jerkThresh) * 0.8 + 1);
                        bump = \<lparr>hb_deviceId = deviceId st, hb_lat = la, hb_lng = lg,
                                hb_score = score, hb_ts = now\<rparr>
                    in (jerkMag,
                        st1\<lparr>lastBumpTs := now, heatLayer := heatLayer st1 @ [bump]\<rparr>,
                        [(''bump'', bump)]))
              else (jerkMag, st1, [])))"

text \<open>The listener run over a list of samples \<open>(e, t, now)\<close>: the metrics, in order.\<close>

fun onMotion_run :: "tracker \<Rightarrow> (motion_event \<times> real \<times> int) list \<Rightarrow> real list \<times> tracker" where
  "onMotion_run st [] = ([], st)"
| "onMotion_run st ((e, t, now) # rest) =
     (let (m, st1, out) = onMotion e t now st;
          (ms, st2) = onMotion_run st1 rest
      in (m # ms, st2))"

text \<open>\<open>prev\<close> holds the filtered vector of the sample before.\<close>

definition prev_is_hp :: "tracker \<Rightarrow> bool" where
  "prev_is_hp st =
     (prev_ax (prevSample st) = ax (hpState st) \<and>
      prev_ay (prevSample st) = ay (hpState st) \<and>
      prev_az (prevSample st) = az (hpState st))"

section \<open>The relay\<close>

text \<open>
  What travels over a socket: the relay never looks inside a bump, and of a position it
  reads \<open>deviceId\<close> only, which is \<open>undefined\<close> (\<open>None\<close>) on an object without it.
  \<open>heat:init\<close> carries an array.
\<close>

datatype payload = PosData pos_data | HeatBump heat_bump | UiBump ui_bump

datatype message = Single payload | Snapshot "payload list"

fun deviceId_of :: "payload \<Rightarrow> string option" where
  "deviceId_of (PosData d) = Some (pd_deviceId d)"
| "deviceId_of (HeatBump b) = Some (hb_deviceId b)"
| "deviceId_of (UiBump b) = None"

type_synonym sock = nat

text \<open>
  The module's two variables, and the sockets the server holds open.  A delivery is
  \<open>(recipient, event name, message)\<close>.
\<close>

record relay =
  relay_bumps :: "payload list"
  livePositions :: "string option \<rightharpoonup> payload"
  sockets :: "sock list"

type_synonym delivery = "sock \<times> string \<times> message"

definition initial_relay :: relay where
  "initial_relay = \<lparr>relay_bumps = [], livePositions = Map.empty, sockets = []\<rparr>"

text \<open>\<open>xs.slice(-n)\<close>: the last \<open>n\<close> elements, all of them when there are fewer.\<close>

definition slice_last :: "nat \<Rightarrow> 'a list \<Rightarrow> 'a list" where
  "slice_last n xs = drop (length xs - n) xs"

definition on_connection :: "sock \<Rightarrow> relay \<Rightarrow> relay \<times> delivery list" where
  "on_connection s st =
     (st\<lparr>sockets := sockets st @ [s]\<rparr>,
      [(s, ''heat:init'', Snapshot (slice_last 5000 (relay_bumps st)))])"

text \<open>\<open>socket.broadcast.emit\<close>: to every open socket but \<open>s\<close>.\<close>

definition on_pos :: "sock \<Rightarrow> payload \<Rightarrow> relay \<Rightarrow> relay \<times> delivery list" where
  "on_pos s data st =
     (st\<lparr>livePositions := (livePositions st)(deviceId_of data \<mapsto> data)\<rparr>,
      map (\<lambda>p. (p, ''pos'', Single data)) (filter (\<lambda>p. p \<noteq> s) (sockets st)))"

text \<open>\<open>io.emit\<close>: to every open socket.\<close>

definition on_bump :: "sock \<Rightarrow> payload \<Rightarrow> relay \<Rightarrow> relay \<times> delivery list" where
  "on_bump s b st =
     (let pushed = relay_bumps st @ [b];
          kept = (if length pushed > 20000
                  then drop (length pushed - 20000) pushed else pushed)
      in (st\<lparr>relay_bumps := kept\<rparr>,
          map (\<lambda>p. (p, ''bump'', Single b)) (sockets st)))"

definition on_disconnect :: "sock \<Rightarrow> relay \<Rightarrow> relay \<times> delivery list" where
  "on_disconnect s st = (st\<lparr>sockets := removeAll s (sockets st)\<rparr>, [])"

text \<open>An inbound event: only \<open>pos\<close> and \<open>bump\<close> have a listener.\<close>

definition relay_receive :: "sock \<Rightarrow> string \<Rightarrow> payload \<Rightarrow> relay \<Rightarrow> relay \<times> delivery list" where
  "relay_receive s name data st =
     (if name = ''pos'' then on_pos s data st
      else if name = ''bump'' then on_bump s data st
      else (st, []))"

datatype relay_event =
    Connection sock
  | Inbound sock string payload
  | Disconnect sock

fun relay_step :: "relay \<Rightarrow> relay_event \<Rightarrow> relay \<times> delivery list" where
  "relay_step st (Connection s) = on_connection s st"
| "relay_step st (Inbound s name data) = relay_receive s name data st"
| "relay_step st (Disconnect s) = on_disconnect s st"

fun relay_run :: "relay \<Rightarrow> relay_event list \<Rightarrow> relay \<times> delivery list" where
  "relay_run st [] = (st, [])"
| "relay_run st (e # es) =
     (let (st1, out1) = relay_step st e;
          (st2, out2) = relay_run st1 es
      in (st2, out1 @ out2))"

text \<open>The bumps published in a run, in order.\<close>

fun published_bumps :: "relay_event list \<Rightarrow> payload list" where
  "published_bumps [] = []"
| "published_bumps (Inbound s name data # es) =
     (if name = ''bump'' then data # published_bumps es else published_bumps es)"
| "published_bumps (e # es) = published_bumps es"

text \<open>The path invariant: at most 10000 points, no point equal to its successor.\<close>

definition path_ok :: "latlon list \<Rightarrow> bool" where
  "path_ok p = (length p \<le> 10000 \<and> distinct_adj p)"

section \<open>The auto-tuner\<close>

text \<open>
  Claim C3.  \<open>getAutoParams\<close> is a function of the speed alone and is exactly the
  four-bracket table: below 5 km/h it gives (2500 ms, 10), from 5 to below 25 it gives
  (1800, 12), from 25 to below 60 it gives (1200, 14), from 60 on it gives (800, 16).
  Hence for speeds \<open>s1 \<le> s2\<close> the sensitivity does not decrease and the cooldown does
  not increase, and the four sample points 4, 5, 24.9 and 60 have the stated values.
\<close>

theorem getAutoParams_table_monotone:
  "(s < 5 \<longrightarrow> getAutoParams s = \<lparr>cooldown = 2500, sensitivity = 10\<rparr>) \<and>
   (5 \<le> s \<and> s < 25 \<longrightarrow> getAutoParams s = \<lparr>cooldown = 1800, sensitivity = 12\<rparr>) \<and>
   (25 \<le> s \<and> s < 60 \<longrightarrow> getAutoParams s = \<lparr>cooldown = 1200, sensitivity = 14\<rparr>) \<and>
   (60 \<le> s \<longrightarrow> getAutoParams s = \<lparr>cooldown = 800, sensitivity = 16\<rparr>) \<and>
   (s1 \<le> s2 \<longrightarrow>
      sensitivity (getAutoParams s1) \<le> sensitivity (getAutoParams s2) \<and>
      cooldown (getAutoParams s2) \<le> cooldown (getAutoParams s1)) \<and>
   getAutoParams 4 = \<lparr>cooldown = 2500, sensitivity = 10\<rparr> \<and>
   getAutoParams 5 = \<lparr>cooldown = 1800, sensitivity = 12\<rparr> \<and>
   getAutoParams 24.9 = \<lparr>cooldown = 1800, sensitivity = 12\<rparr> \<and>
   getAutoParams 60 = \<lparr>cooldown = 800, sensitivity = 16\<rparr>"
  by (simp add: getAutoParams_def)

theorem getAutoParams_table_monotone_witness:
  "getAutoParams 3 = \<lparr>cooldown = 2500, sensitivity = 10\<rparr> \<and>
   getAutoParams 12 = \<lparr>cooldown = 1800, sensitivity = 12\<rparr> \<and>
   getAutoParams 40 = \<lparr>cooldown = 1200, sensitivity = 14\<rparr> \<and>
   getAutoParams 75 = \<lparr>cooldown = 800, sensitivity = 16\<rparr> \<and>
   (24.9 :: real) \<le> 25 \<and>
   sensitivity (getAutoParams 24.9) \<le> sensitivity (getAutoParams 25) \<and>
   cooldown (getAutoParams 25) \<le> cooldown (getAutoParams 24.9)"
  using getAutoParams_table_monotone [of 3 "24.9" 25]
        getAutoParams_table_monotone [of 12 "24.9" 25]
        getAutoParams_table_monotone [of 40 "24.9" 25]
        getAutoParams_table_monotone [of 75 "24.9" 25]
  by simp

section \<open>The path\<close>

subsection \<open>The updater keeps the invariant\<close>


lemma appendPath_length: "length prev \<le> 10000 \<Longrightarrow> length (appendPath prev next) \<le> 10000"
  by (auto simp: appendPath_def Let_def)

lemma distinct_adj_snoc: "distinct_adj xs \<Longrightarrow> xs = [] \<or> last xs \<noteq> p \<Longrightarrow> distinct_adj (xs @ [p])"
  by (auto simp: distinct_adj_append_iff)

lemma distinct_adj_tl: "distinct_adj xs \<Longrightarrow> distinct_adj (tl xs)"
  by (cases xs) (auto dest: distinct_adj_ConsD)

lemma appendPath_distinct_adj: "distinct_adj prev \<Longrightarrow> distinct_adj (appendPath prev next)"
  unfolding appendPath_def Let_def
  by (auto intro!: distinct_adj_tl distinct_adj_snoc simp: prod_eq_iff)

lemma appendPath_last:
  "appendPath prev next \<noteq> [] \<and> last (appendPath prev next) = (lat next, lon next)"
proof (cases "prev = [] \<or> fst (last prev) \<noteq> lat next \<or> snd (last prev) \<noteq> lon next")
  case True
  let ?u = "prev @ [(lat next, lon next)]"
  show ?thesis
  proof (cases "length ?u > 10000")
    case long: True
    then obtain x y zs where u: "?u = x # y # zs"
      by (cases ?u; cases "tl ?u") auto
    have "last ?u = (lat next, lon next)" by simp
    with u have "tl ?u \<noteq> [] \<and> last (tl ?u) = (lat next, lon next)" by simp
    with True long show ?thesis by (simp add: appendPath_def Let_def)
  next
    case False
    with True show ?thesis by (simp add: appendPath_def Let_def)
  qed
next
  case False
  then show ?thesis by (auto simp: appendPath_def prod_eq_iff)
qed

lemma appendPath_same:
  "q \<noteq> [] \<Longrightarrow> last q = (lat next, lon next) \<Longrightarrow> appendPath q next = q"
  by (simp add: appendPath_def)

lemma appendPath_twice: "appendPath (appendPath prev next) next = appendPath prev next"
  using appendPath_last [of prev "next"] by (simp add: appendPath_same)

lemma path_handlePos [simp]: "path (handlePos pos now st) = appendPath (path st) \<lparr>lat = latitude pos, lon = longitude pos\<rparr>"
  by (simp add: handlePos_def Let_def split: option.splits)

lemma path_addRedSegmentNear [simp]: "path (addRedSegmentNear a b st) = path st"
  by (simp add: addRedSegmentNear_def split: option.splits)

lemma path_handler [simp]: "path (fst (handler event now timeStr st)) = path st"
  by (simp add: handler_def Let_def)

lemma app_step_path_ok: "path_ok (path st) \<Longrightarrow> path_ok (path (fst (app_step st e)))"
  by (cases e) (simp_all add: path_ok_def appendPath_length appendPath_distinct_adj app_receive_def)

lemma app_run_path_ok: "path_ok (path st) \<Longrightarrow> path_ok (path (fst (app_run st es)))"
proof (induction es arbitrary: st)
  case Nil
  then show ?case by simp
next
  case (Cons e es)
  from Cons.prems have "path_ok (path (fst (app_step st e)))" by (rule app_step_path_ok)
  then have "path_ok (path (fst (app_run (fst (app_step st e)) es)))" by (rule Cons.IH)
  then show ?case by (simp add: split_beta Let_def)
qed

lemma appendPath_evicts:
  assumes "length prev = 10000" and "last prev \<noteq> (lat next, lon next)"
  shows "appendPath prev next = tl prev @ [(lat next, lon next)]"
proof -
  from assms(1) have ne: "prev \<noteq> []" by auto
  from assms(2) have "fst (last prev) \<noteq> lat next \<or> snd (last prev) \<noteq> lon next"
    by (auto simp: prod_eq_iff)
  with assms(1) ne show ?thesis by (simp add: appendPath_def Let_def)
qed

text \<open>
  Claim C4.  After any sequence of callbacks of a session (position fixes among them),
  started from the initial state, the path has at most 10000 points and no two
  consecutive equal points.  When the path is full and the new point differs from the
  last one, the oldest point is dropped and the new one appended.  A fix fed twice in
  immediate succession leaves the path as the first feed left it.
\<close>

theorem path_capped_no_adjacent_duplicates:
  "length (path (fst (app_run initial_app es))) \<le> 10000 \<and>
   distinct_adj (path (fst (app_run initial_app es))) \<and>
   (length prev = 10000 \<and> last prev \<noteq> (lat next, lon next) \<longrightarrow>
      appendPath prev next = tl prev @ [(lat next, lon next)]) \<and>
   path (handlePos pos now2 (handlePos pos now1 st)) = path (handlePos pos now1 st)"
proof -
  have "path_ok (path initial_app)" by (simp add: path_ok_def initial_app_def)
  then have "path_ok (path (fst (app_run initial_app es)))" by (rule app_run_path_ok)
  then show ?thesis by (simp add: path_ok_def appendPath_twice appendPath_evicts)
qed

theorem path_capped_no_adjacent_duplicates_witness:
  "path (fst (app_run initial_app
            [GeoFix \<lparr>latitude = 1, longitude = 2, speed = None\<rparr> 1000,
             GeoFix \<lparr>latitude = 1, longitude = 2, speed = None\<rparr> 2000,
             GeoFix \<lparr>latitude = 1, longitude = 3, speed = Some 4\<rparr> 3000])) = [(1, 2), (1, 3)] \<and>
   length (path (fst (app_run initial_app
            [GeoFix \<lparr>latitude = 1, longitude = 2, speed = None\<rparr> 1000,
             GeoFix \<lparr>latitude = 1, longitude = 2, speed = None\<rparr> 2000,
             GeoFix \<lparr>latitude = 1, longitude = 3, speed = Some 4\<rparr> 3000]))) \<le> 10000 \<and>
   distinct_adj (path (fst (app_run initial_app
            [GeoFix \<lparr>latitude = 1, longitude = 2, speed = None\<rparr> 1000,
             GeoFix \<lparr>latitude = 1, longitude = 2, speed = None\<rparr> 2000,
             GeoFix \<lparr>latitude = 1, longitude = 3, speed = Some 4\<rparr> 3000]))) \<and>
   length (map (\<lambda>i. (real i, 0 :: real)) [0..<10000]) = 10000 \<and>
   last (map (\<lambda>i. (real i, 0 :: real)) [0..<10000]) \<noteq> (0, 0) \<and>
   appendPath (map (\<lambda>i. (real i, 0)) [0..<10000]) \<lparr>lat = 0, lon = 0\<rparr> =
     tl (map (\<lambda>i. (real i, 0)) [0..<10000]) @ [(0, 0)] \<and>
   path (handlePos \<lparr>latitude = 1, longitude = 2, speed = None\<rparr> 2000
          (handlePos \<lparr>latitude = 1, longitude = 2, speed = None\<rparr> 1000 initial_app)) =
     path (handlePos \<lparr>latitude = 1, longitude = 2, speed = None\<rparr> 1000 initial_app)"
proof -
  have len: "length (map (\<lambda>i. (real i, 0 :: real)) [0..<10000]) = 10000" by simp
  have lst: "last (map (\<lambda>i. (real i, 0 :: real)) [0..<10000]) \<noteq> (0, 0)"
    by (simp add: last_map)
  note t = path_capped_no_adjacent_duplicates
      [of "[GeoFix \<lparr>latitude = 1, longitude = 2, speed = None\<rparr> 1000,
             GeoFix \<lparr>latitude = 1, longitude = 2, speed = None\<rparr> 2000,
             GeoFix \<lparr>latitude = 1, longitude = 3, speed = Some 4\<rparr> 3000]"
          "map (\<lambda>i. (real i, 0)) [0..<10000]" "\<lparr>lat = 0, lon = 0\<rparr>"
          "\<lparr>latitude = 1, longitude = 2, speed = None\<rparr>" 2000 1000 initial_app]
  from t len lst show ?thesis
    by (simp add: initial_app_def appendPath_def Let_def del: upt.simps)
qed

section \<open>The relay's store\<close>

subsection \<open>Keeping the last elements of a list\<close>

lemma length_slice_last: "length (slice_last n xs) = min n (length xs)"
  by (simp add: slice_last_def)

lemma suffix_slice_last: "suffix (slice_last n xs) xs"
  by (simp add: slice_last_def suffix_drop)

lemma slice_last_short: "length xs \<le> n \<Longrightarrow> slice_last n xs = xs"
  by (simp add: slice_last_def)

lemma slice_last_append: "slice_last n (slice_last n ys @ zs) = slice_last n (ys @ zs)"
proof (cases "length ys \<le> n")
  case True
  then show ?thesis by (simp add: slice_last_short)
next
  case False
  then obtain k where k: "length ys = n + k"
    using le_Suc_ex [of n "length ys"] by auto
  then show ?thesis by (simp add: slice_last_def add.commute)
qed

lemma slice_last_slice_last: "m \<le> n \<Longrightarrow> slice_last m (slice_last n xs) = slice_last m xs"
proof (cases "length xs \<le> n")
  case True
  then show ?thesis by (simp add: slice_last_short)
next
  case False
  assume "m \<le> n"
  then obtain j where j: "n = m + j"
    using le_Suc_ex [of m n] by auto
  from False obtain k where k: "length xs = n + k"
    using le_Suc_ex [of n "length xs"] by auto
  show ?thesis by (simp add: slice_last_def j k add.commute add.left_commute)
qed

lemma on_bump_store: "relay_bumps (fst (on_bump s b st)) = slice_last 20000 (relay_bumps st @ [b])"
  by (simp add: on_bump_def Let_def slice_last_def)

lemma relay_step_store:
  "relay_bumps (fst (relay_step st e)) = slice_last 20000 (relay_bumps st @ published_bumps [e])"
  if "length (relay_bumps st) \<le> 20000"
  using that
  by (cases e) (simp_all add: on_connection_def on_disconnect_def relay_receive_def on_pos_def
       on_bump_store slice_last_short)

lemma relay_run_store:
  "length (relay_bumps st) \<le> 20000 \<Longrightarrow>
   relay_bumps (fst (relay_run st es)) = slice_last 20000 (relay_bumps st @ published_bumps es)"
proof (induction es arbitrary: st)
  case Nil
  then show ?case by (simp add: slice_last_short)
next
  case (Cons e es)
  let ?st1 = "fst (relay_step st e)"
  have s1: "relay_bumps ?st1 = slice_last 20000 (relay_bumps st @ published_bumps [e])"
    using Cons.prems by (rule relay_step_store)
  then have "length (relay_bumps ?st1) \<le> 20000" by (simp add: length_slice_last)
  then have "relay_bumps (fst (relay_run ?st1 es)) =
      slice_last 20000 (relay_bumps ?st1 @ published_bumps es)" by (rule Cons.IH)
  also have "\<dots> = slice_last 20000 ((relay_bumps st @ published_bumps [e]) @ published_bumps es)"
    unfolding s1 by (rule slice_last_append)
  finally have run: "relay_bumps (fst (relay_run ?st1 es)) =
      slice_last 20000 (relay_bumps st @ published_bumps [e] @ published_bumps es)" by simp
  have "published_bumps [e] @ published_bumps es = published_bumps (e # es)"
    by (cases e) simp_all
  with run show ?case by (simp add: split_beta)
qed

text \<open>
  Claim C9.  After any run of the relay from its initial state, the store is the last
  20000 of the bumps published so far, in order of arrival (all of them when there are
  fewer), so the oldest go first; and a client that connects then is sent, as
  \<open>heat:init\<close>, the last 5000 of them (all of them when there are fewer).
\<close>

theorem relay_store_bounded_recent:
  "relay_bumps (fst (relay_run initial_relay es)) = slice_last 20000 (published_bumps es) \<and>
   length (relay_bumps (fst (relay_run initial_relay es))) = min 20000 (length (published_bumps es)) \<and>
   suffix (relay_bumps (fst (relay_run initial_relay es))) (published_bumps es) \<and>
   snd (relay_step (fst (relay_run initial_relay es)) (Connection s)) =
     [(s, ''heat:init'', Snapshot (slice_last 5000 (published_bumps es)))] \<and>
   length (slice_last 5000 (published_bumps es)) = min 5000 (length (published_bumps es)) \<and>
   suffix (slice_last 5000 (published_bumps es)) (published_bumps es)"
proof -
  have "length (relay_bumps initial_relay) \<le> 20000" by (simp add: initial_relay_def)
  then have "relay_bumps (fst (relay_run initial_relay es)) =
      slice_last 20000 (relay_bumps initial_relay @ published_bumps es)" by (rule relay_run_store)
  then have st: "relay_bumps (fst (relay_run initial_relay es)) = slice_last 20000 (published_bumps es)"
    by (simp add: initial_relay_def)
  show ?thesis
    by (simp add: st length_slice_last suffix_slice_last on_connection_def slice_last_slice_last)
qed

theorem relay_store_bounded_recent_witness:
  "relay_bumps (fst (relay_run initial_relay
      [Connection 1,
       Inbound 1 ''bump'' (HeatBump \<lparr>hb_deviceId = ''a'', hb_lat = 1, hb_lng = 2, hb_score = 3, hb_ts = 4\<rparr>),
       Inbound 1 ''send-bump'' (HeatBump \<lparr>hb_deviceId = ''a'', hb_lat = 0, hb_lng = 0, hb_score = 0, hb_ts = 5\<rparr>),
       Inbound 2 ''bump'' (HeatBump \<lparr>hb_deviceId = ''b'', hb_lat = 5, hb_lng = 6, hb_score = 1, hb_ts = 7\<rparr>)])) =
     [HeatBump \<lparr>hb_deviceId = ''a'', hb_lat = 1, hb_lng = 2, hb_score = 3, hb_ts = 4\<rparr>,
      HeatBump \<lparr>hb_deviceId = ''b'', hb_lat = 5, hb_lng = 6, hb_score = 1, hb_ts = 7\<rparr>] \<and>
   snd (relay_step (fst (relay_run initial_relay
      [Connection 1,
       Inbound 1 ''bump'' (HeatBump \<lparr>hb_deviceId = ''a'', hb_lat = 1, hb_lng = 2, hb_score = 3, hb_ts = 4\<rparr>),
       Inbound 1 ''send-bump'' (HeatBump \<lparr>hb_deviceId = ''a'', hb_lat = 0, hb_lng = 0, hb_score = 0, hb_ts = 5\<rparr>),
       Inbound 2 ''bump'' (HeatBump \<lparr>hb_deviceId = ''b'', hb_lat = 5, hb_lng = 6, hb_score = 1, hb_ts = 7\<rparr>)]))
      (Connection 3)) =
     [(3, ''heat:init'', Snapshot
        [HeatBump \<lparr>hb_deviceId = ''a'', hb_lat = 1, hb_lng = 2, hb_score = 3, hb_ts = 4\<rparr>,
         HeatBump \<lparr>hb_deviceId = ''b'', hb_lat = 5, hb_lng = 6, hb_score = 1, hb_ts = 7\<rparr>])]"
  using relay_store_bounded_recent
    [of "[Connection 1,
       Inbound 1 ''bump'' (HeatBump \<lparr>hb_deviceId = ''a'', hb_lat = 1, hb_lng = 2, hb_score = 3, hb_ts = 4\<rparr>),
       Inbound 1 ''send-bump'' (HeatBump \<lparr>hb_deviceId = ''a'', hb_lat = 0, hb_lng = 0, hb_score = 0, hb_ts = 5\<rparr>),
       Inbound 2 ''bump'' (HeatBump \<lparr>hb_deviceId = ''b'', hb_lat = 5, hb_lng = 6, hb_score = 1, hb_ts = 7\<rparr>)]" 3]
  by (simp add: slice_last_def)

section \<open>What the relay forwards\<close>

lemma reading_vertical:
  "reading (Some \<lparr>g_x = Some 0, g_y = Some 0, g_z = Some z\<rparr>) =
     \<lparr>acc_x = 0, acc_y = 0, acc_z = z, acc_linear = \<bar>\<bar>z\<bar> - 9.81\<bar>\<rparr>"
  by (simp add: reading_def axis_def)

lemma on_pos_recipients:
  "map fst (snd (on_pos s d st)) = filter (\<lambda>p. p \<noteq> s) (sockets st)"
  by (simp add: on_pos_def comp_def)

lemma on_bump_recipients: "map fst (snd (on_bump s b st)) = sockets st"
  by (simp add: on_bump_def Let_def comp_def)

lemma relay_step_names:
  "d \<in> set (snd (relay_step rst e)) \<Longrightarrow> fst (snd d) \<in> {''heat:init'', ''pos'', ''bump''}"
  by (cases e)
    (auto simp: on_connection_def on_disconnect_def relay_receive_def on_pos_def on_bump_def
      Let_def split: if_splits)

text \<open>
  Claim C6.  A position received from socket \<open>s\<close> is delivered, under the name \<open>pos\<close>,
  to every open socket but \<open>s\<close>.  A bump received from \<open>s\<close> is delivered, under the
  name \<open>bump\<close>, to every open socket, \<open>s\<close> among them: with sockets 1 and 2 open, a
  bump published by socket 1 comes back to socket 1.  Neither listener answers the
  sender with an acknowledgment: the deliveries listed are all there is.
\<close>

theorem relay_forwarding:
  "snd (relay_receive s ''pos'' d st) =
     map (\<lambda>p. (p, ''pos'', Single d)) (filter (\<lambda>p. p \<noteq> s) (sockets st)) \<and>
   snd (relay_receive s ''bump'' b st) = map (\<lambda>p. (p, ''bump'', Single b)) (sockets st) \<and>
   snd (relay_receive 1 ''bump''
         (HeatBump \<lparr>hb_deviceId = ''a'', hb_lat = 1, hb_lng = 2, hb_score = 3, hb_ts = 4\<rparr>)
         (fst (relay_run initial_relay [Connection 1, Connection 2]))) =
     [(1, ''bump'', Single (HeatBump \<lparr>hb_deviceId = ''a'', hb_lat = 1, hb_lng = 2, hb_score = 3, hb_ts = 4\<rparr>)),
      (2, ''bump'', Single (HeatBump \<lparr>hb_deviceId = ''a'', hb_lat = 1, hb_lng = 2, hb_score = 3, hb_ts = 4\<rparr>))]"
  by (simp add: relay_receive_def on_pos_def on_bump_def Let_def initial_relay_def on_connection_def)

text \<open>
  Claim C10.  The motion handlers of the auto-tune and the baseline front end emit
  nothing but \<open>send-bump\<close>; the relay has no listener for that name (nor for any name
  other than \<open>pos\<close> and \<open>bump\<close>), so its state stays as it is and nothing is delivered
  to any socket.  The relay never sends \<open>new-bump\<close>, the only name to which these two
  front ends listen.
\<close>

theorem send_bump_ignored_by_relay:
  "(\<forall>m \<in> set (snd (handler event now timeStr st)).
      fst m = ''send-bump'' \<and> relay_receive s (fst m) (UiBump (snd m)) rst = (rst, [])) \<and>
   (\<forall>m \<in> set (snd (base_handler event now timeStr bst)).
      fst m = ''send-bump'' \<and> relay_receive s (fst m) (UiBump (snd m)) rst = (rst, [])) \<and>
   (name \<noteq> ''pos'' \<and> name \<noteq> ''bump'' \<longrightarrow> relay_receive s name d rst = (rst, [])) \<and>
   (\<forall>d \<in> set (snd (relay_step rst e)). fst (snd d) \<noteq> ''new-bump'') \<and>
   (name \<noteq> ''new-bump'' \<longrightarrow> app_receive name b st = st \<and> base_receive name b bst = bst)"
proof -
  have "\<forall>d \<in> set (snd (relay_step rst e)). fst (snd d) \<noteq> ''new-bump''"
    using relay_step_names [of _ rst e] by fastforce
  then show ?thesis
    by (simp add: handler_def base_handler_def Let_def relay_receive_def app_receive_def
        base_receive_def)
qed

theorem send_bump_ignored_by_relay_witness:
  "snd (handler (Some \<lparr>g_x = Some 0, g_y = Some 0, g_z = Some 29.81\<rparr>) 1700000000000 ''10:00:00'' initial_app) =
     [(''send-bump'', \<lparr>bump_id = 1700000000000, bump_time = ''10:00:00'',
        bump_coords = \<lparr>lat = 28.6139, lon = 77.209\<rparr>, bump_accel = 20, bump_speedKmh = Some 0\<rparr>)] \<and>
   snd (base_handler (Some \<lparr>g_x = Some 0, g_y = Some 0, g_z = Some 29.81\<rparr>) 1700000000000 ''10:00:00'' initial_base_app) =
     [(''send-bump'', \<lparr>bump_id = 1700000000000, bump_time = ''10:00:00'',
        bump_coords = \<lparr>lat = 28.6139, lon = 77.209\<rparr>, bump_accel = 20, bump_speedKmh = None\<rparr>)] \<and>
   relay_receive 1 ''send-bump''
      (UiBump \<lparr>bump_id = 1700000000000, bump_time = ''10:00:00'',
        bump_coords = \<lparr>lat = 28.6139, lon = 77.209\<rparr>, bump_accel = 20, bump_speedKmh = Some 0\<rparr>)
      (fst (relay_run initial_relay [Connection 1, Connection 2])) =
     (fst (relay_run initial_relay [Connection 1, Connection 2]), []) \<and>
   relay_receive 1 ''send-bump''
      (UiBump \<lparr>bump_id = 1700000000000, bump_time = ''10:00:00'',
        bump_coords = \<lparr>lat = 28.6139, lon = 77.209\<rparr>, bump_accel = 20, bump_speedKmh = None\<rparr>)
      (fst (relay_run initial_relay [Connection 1, Connection 2])) =
     (fst (relay_run initial_relay [Connection 1, Connection 2]), []) \<and>
   app_receive ''bump'' \<lparr>bump_id = 1, bump_time = ''10:00:00'',
        bump_coords = \<lparr>lat = 28.6139, lon = 77.209\<rparr>, bump_accel = 20, bump_speedKmh = None\<rparr> initial_app = initial_app"
proof -
  have h1: "snd (handler (Some \<lparr>g_x = Some 0, g_y = Some 0, g_z = Some 29.81\<rparr>) 1700000000000 ''10:00:00'' initial_app) =
     [(''send-bump'', \<lparr>bump_id = 1700000000000, bump_time = ''10:00:00'',
        bump_coords = \<lparr>lat = 28.6139, lon = 77.209\<rparr>, bump_accel = 20, bump_speedKmh = Some 0\<rparr>)]"
    by (simp add: handler_def reading_vertical initial_app_def effectiveSensitivity_def
        effectiveCooldown_def getAutoParams_def toFixed_def Let_def)
  have h2: "snd (base_handler (Some \<lparr>g_x = Some 0, g_y = Some 0, g_z = Some 29.81\<rparr>) 1700000000000 ''10:00:00'' initial_base_app) =
     [(''send-bump'', \<lparr>bump_id = 1700000000000, bump_time = ''10:00:00'',
        bump_coords = \<lparr>lat = 28.6139, lon = 77.209\<rparr>, bump_accel = 20, bump_speedKmh = None\<rparr>)]"
    by (simp add: base_handler_def reading_vertical initial_base_app_def toFixed_def Let_def)
  note t = send_bump_ignored_by_relay
    [of "Some \<lparr>g_x = Some 0, g_y = Some 0, g_z = Some 29.81\<rparr>" 1700000000000 "''10:00:00''"
        initial_app 1 "fst (relay_run initial_relay [Connection 1, Connection 2])"
        initial_base_app "''bump''" _ _
        "\<lparr>bump_id = 1, bump_time = ''10:00:00'',
        bump_coords = \<lparr>lat = 28.6139, lon = 77.209\<rparr>, bump_accel = 20, bump_speedKmh = None\<rparr>"]
  from t show ?thesis unfolding h1 h2 by simp
qed

section \<open>Great-circle distance\<close>

text \<open>
  The argument of the arc sine lies between 0 and 1 for all coordinates, so over the
  reals \<open>haversineMeters\<close> is defined everywhere, symmetric and never negative.  Along
  a meridian it is the radius times the difference of the latitudes in radians.
\<close>

lemma haversineA_sym: "haversineA lat1 lon1 lat2 lon2 = haversineA lat2 lon2 lat1 lon1"
proof -
  have s: "(sin (- x))\<^sup>2 = (sin x)\<^sup>2" for x :: real by simp
  have "toRad (lat1 - lat2) / 2 = - (toRad (lat2 - lat1) / 2)"
    and "toRad (lon1 - lon2) / 2 = - (toRad (lon2 - lon1) / 2)"
    by (simp_all add: toRad_def field_simps)
  then show ?thesis
    unfolding haversineA_def Let_def by (simp only: s mult.commute)
qed

lemma haversineMeters_sym:
  "haversineMeters lat1 lon1 lat2 lon2 = haversineMeters lat2 lon2 lat1 lon1"
  unfolding haversineMeters_def Let_def by (subst haversineA_sym) (rule refl)

lemma sin_half_squared: "(sin (x / 2))\<^sup>2 = (1 - cos x) / 2" for x :: real
  using cos_double_sin [of "x / 2"] by simp

lemma haversineA_range: "0 \<le> haversineA lat1 lon1 lat2 lon2 \<and> haversineA lat1 lon1 lat2 lon2 \<le> 1"
proof -
  define p where "p = toRad lat1"
  define q where "q = toRad lat2"
  define s where "s = (sin (toRad (lon2 - lon1) / 2))\<^sup>2"
  define c where "c = cos (q - p)"
  define d where "d = cos (q + p)"
  have dl: "toRad (lat2 - lat1) = q - p" by (simp add: p_def q_def toRad_def field_simps)
  have s0: "0 \<le> s" by (simp add: s_def)
  have s1: "s \<le> 1" unfolding s_def using abs_sin_le_one [of "toRad (lon2 - lon1) / 2"]
    by (simp add: abs_square_le_1)
  have c1: "c \<le> 1" "- 1 \<le> c" and d1: "d \<le> 1" "- 1 \<le> d" by (simp_all add: c_def d_def)
  have cc: "cos p * cos q = (c + d) / 2"
    unfolding c_def d_def using cos_times_cos [of q p] by (simp add: mult.commute)
  have h: "(sin (toRad (lat2 - lat1) / 2))\<^sup>2 = (1 - c) / 2"
    unfolding dl c_def by (rule sin_half_squared)
  have "haversineA lat1 lon1 lat2 lon2 = (1 - c) / 2 + cos p * cos q * s"
    unfolding haversineA_def Let_def h p_def q_def s_def by (rule refl)
  then have A: "haversineA lat1 lon1 lat2 lon2 = (1 - c) / 2 + (c + d) / 2 * s"
    by (simp only: cc)
  have A': "(1 - c) / 2 + (c + d) / 2 * s = (1 - c * (1 - s) + d * s) / 2"
    by (simp add: field_simps)
  have m1: "c * (1 - s) \<le> 1 * (1 - s)" using c1 s1 by (intro mult_right_mono) simp_all
  have m2: "- 1 * (1 - s) \<le> c * (1 - s)" using c1 s1 by (intro mult_right_mono) simp_all
  have m3: "d * s \<le> 1 * s" using d1 s0 by (intro mult_right_mono) simp_all
  have m4: "- 1 * s \<le> d * s" using d1 s0 by (intro mult_right_mono) simp_all
  from m1 m2 m3 m4 show ?thesis unfolding A A' by simp
qed

lemma haversineMeters_nonneg: "0 \<le> haversineMeters lat1 lon1 lat2 lon2"
proof -
  have "0 \<le> sqrt (haversineA lat1 lon1 lat2 lon2)" and "sqrt (haversineA lat1 lon1 lat2 lon2) \<le> 1"
    using haversineA_range [of lat1 lon1 lat2 lon2] by simp_all
  then have "0 \<le> arcsin (sqrt (haversineA lat1 lon1 lat2 lon2))"
    by (intro arcsin_nonneg) simp
  then show ?thesis by (simp add: haversineMeters_def Let_def)
qed


lemma haversineMeters_meridian_up:
  assumes "lat1 \<le> lat2" and "lat2 - lat1 \<le> 180"
  shows "haversineMeters lat1 lo lat2 lo = 6371000 * (lat2 - lat1) * pi / 180"
proof -
  define u where "u = toRad (lat2 - lat1) / 2"
  have u0: "0 \<le> u" using assms(1) by (simp add: u_def toRad_def)
  have "(lat2 - lat1) * pi \<le> 180 * pi" using assms(2) by (intro mult_right_mono) simp_all
  then have u1: "u \<le> pi / 2" by (simp add: u_def toRad_def)
  from u0 u1 have "0 \<le> sin u" by (intro sin_ge_zero) (use pi_ge_two in linarith)+
  moreover have "haversineA lat1 lo lat2 lo = (sin u)\<^sup>2"
    by (simp add: haversineA_def Let_def u_def toRad_def)
  ultimately have "sqrt (haversineA lat1 lo lat2 lo) = sin u"
    by simp
  moreover have "arcsin (sin u) = u" using u0 u1 by (intro arcsin_sin) linarith+
  ultimately have "haversineMeters lat1 lo lat2 lo = 2 * 6371000 * u"
    by (simp add: haversineMeters_def Let_def)
  also have "2 * 6371000 * u = 6371000 * (lat2 - lat1) * pi / 180"
    by (simp add: u_def toRad_def)
  finally show ?thesis .
qed

lemma haversineMeters_meridian:
  assumes "\<bar>lat2 - lat1\<bar> \<le> 180"
  shows "haversineMeters lat1 lo lat2 lo = 6371000 * \<bar>lat2 - lat1\<bar> * pi / 180"
proof (cases "lat1 \<le> lat2")
  case True
  with assms show ?thesis by (simp add: haversineMeters_meridian_up)
next
  case False
  with assms have "haversineMeters lat2 lo lat1 lo = 6371000 * (lat1 - lat2) * pi / 180"
    by (intro haversineMeters_meridian_up) simp_all
  with False show ?thesis by (simp add: haversineMeters_sym [of lat1 lo lat2 lo])
qed


section \<open>Speed from position fixes\<close>

lemma lastGeoRef_handlePos:
  "lastGeoRef (handlePos pos now st) =
     Some \<lparr>geo_lat = latitude pos, geo_lon = longitude pos, geo_t = now\<rparr>"
  by (simp add: handlePos_def Let_def split: option.splits)

lemma speedKmh_handlePos:
  "speedKmh (handlePos pos now st) =
     (case speedUpdate pos now (lastGeoRef st) of Some kmh \<Rightarrow> kmh | None \<Rightarrow> speedKmh st)"
  by (simp add: handlePos_def Let_def split: option.splits)

lemma speedUpdate_derived:
  assumes "speed pos = None \<or> (\<exists>v. speed pos = Some v \<and> v < 0)"
  shows "speedUpdate pos now (Some g) =
     (if 0.5 < real_of_int (now - geo_t g) / 1000 \<and> real_of_int (now - geo_t g) / 1000 < 15
      then Some (max 0 (min 180
             (haversineMeters (geo_lat g) (geo_lon g) (latitude pos) (longitude pos) /
                (real_of_int (now - geo_t g) / 1000) * 3.6)))
      else None)"
  using assms by (auto simp: speedUpdate_def Let_def)

text \<open>
  Claim C2.  Let a fix arrive that carries no speed, or a negative one, while a previous
  fix \<open>g\<close> is on record, and let \<open>dt\<close> be the seconds elapsed since \<open>g\<close>.  If
  \<open>0.5 < dt < 15\<close>, the speed set is the great-circle distance from \<open>g\<close> to the new
  fix divided by \<open>dt\<close>, times 3.6, clamped to between 0 and 180.  Otherwise no speed is
  set and the speed stays as it was.  In both cases the new fix becomes the latest fix.
\<close>

theorem derived_speed_is_haversine_over_elapsed:
  assumes "speed pos = None \<or> (\<exists>v. speed pos = Some v \<and> v < 0)"
    and "lastGeoRef st = Some g"
    and "dt = real_of_int (now - geo_t g) / 1000"
    and "kmh = haversineMeters (geo_lat g) (geo_lon g) (latitude pos) (longitude pos) / dt * 3.6"
  shows "(0.5 < dt \<and> dt < 15 \<longrightarrow>
            speedUpdate pos now (lastGeoRef st) = Some (max 0 (min 180 kmh)) \<and>
            speedKmh (handlePos pos now st) = max 0 (min 180 kmh) \<and>
            0 \<le> speedKmh (handlePos pos now st) \<and> speedKmh (handlePos pos now st) \<le> 180) \<and>
         (\<not> (0.5 < dt \<and> dt < 15) \<longrightarrow>
            speedUpdate pos now (lastGeoRef st) = None \<and>
            speedKmh (handlePos pos now st) = speedKmh st) \<and>
         lastGeoRef (handlePos pos now st) =
            Some \<lparr>geo_lat = latitude pos, geo_lon = longitude pos, geo_t = now\<rparr>"
  unfolding assms(4) assms(3) assms(2) speedKmh_handlePos lastGeoRef_handlePos
    speedUpdate_derived [OF assms(1), of now g]
  by auto

theorem derived_speed_is_haversine_over_elapsed_witness:
  "speed \<lparr>latitude = 0.0001, longitude = 0, speed = None\<rparr> = None \<and>
   lastGeoRef (handlePos \<lparr>latitude = 0, longitude = 0, speed = None\<rparr> 1700000000000 initial_app) =
     Some \<lparr>geo_lat = 0, geo_lon = 0, geo_t = 1700000000000\<rparr> \<and>
   (0.5 :: real) < real_of_int (1700000001000 - 1700000000000) / 1000 \<and>
   real_of_int (1700000001000 - 1700000000000) / 1000 < (15 :: real) \<and>
   speedKmh (handlePos \<lparr>latitude = 0.0001, longitude = 0, speed = None\<rparr> 1700000001000
     (handlePos \<lparr>latitude = 0, longitude = 0, speed = None\<rparr> 1700000000000 initial_app)) =
     6371 * pi / 500 \<and>
   \<not> real_of_int (1700000020000 - 1700000000000) / 1000 < (15 :: real) \<and>
   speedUpdate \<lparr>latitude = 0.0001, longitude = 0, speed = None\<rparr> 1700000020000
     (lastGeoRef (handlePos \<lparr>latitude = 0, longitude = 0, speed = None\<rparr> 1700000000000 initial_app)) = None \<and>
   speedKmh (handlePos \<lparr>latitude = 0.0001, longitude = 0, speed = None\<rparr> 1700000020000
     (handlePos \<lparr>latitude = 0, longitude = 0, speed = None\<rparr> 1700000000000 initial_app)) = 0 \<and>
   lastGeoRef (handlePos \<lparr>latitude = 0.0001, longitude = 0, speed = None\<rparr> 1700000020000
     (handlePos \<lparr>latitude = 0, longitude = 0, speed = None\<rparr> 1700000000000 initial_app)) =
     Some \<lparr>geo_lat = 0.0001, geo_lon = 0, geo_t = 1700000020000\<rparr>"
proof -
  let ?p = "\<lparr>latitude = 0.0001, longitude = 0, speed = None\<rparr>"
  let ?st = "handlePos \<lparr>latitude = 0, longitude = 0, speed = None\<rparr> 1700000000000 initial_app"
  let ?g = "\<lparr>geo_lat = 0, geo_lon = 0, geo_t = 1700000000000\<rparr>"
  have a1: "speed ?p = None \<or> (\<exists>v. speed ?p = Some v \<and> v < 0)" by simp
  have a2: "lastGeoRef ?st = Some ?g" by (simp add: lastGeoRef_handlePos)
  have s0: "speedKmh ?st = 0"
    by (simp add: speedKmh_handlePos speedUpdate_def initial_app_def)
  have hav: "haversineMeters 0 0 (1 / 10000) 0 = 6371 * pi / 1800"
    using haversineMeters_meridian [of "1 / 10000" 0 0] by simp
  have k: "max 0 (min 180 (haversineMeters 0 0 (1 / 10000) 0 * 18 / 5)) = 6371 * pi / 500"
    unfolding hav using pi_ge_two pi_less_4 by (simp add: max_def min_def)
  note t1 = derived_speed_is_haversine_over_elapsed [OF a1 a2 refl refl, of 1700000001000]
  note t2 = derived_speed_is_haversine_over_elapsed [OF a1 a2 refl refl, of 1700000020000]
  from t1 t2 show ?thesis by (simp add: k s0 a2)
qed

section \<open>The jerk metric\<close>

lemma onMotion_metric:
  "fst (onMotion e t now st) =
     jerk (highpass (hpState st) (raw_axes e) (recentAccel st)) (prevSample st) t"
  by (simp add: onMotion_def Let_def split: option.splits prod.splits)

lemma onMotion_hpState:
  "hpState (fst (snd (onMotion e t now st))) =
     highpass (hpState st) (raw_axes e) (recentAccel st)"
  by (simp add: onMotion_def Let_def split: option.splits prod.splits)

lemma onMotion_recentAccel: "recentAccel (fst (snd (onMotion e t now st))) = raw_axes e"
  by (simp add: onMotion_def Let_def split: option.splits prod.splits)

lemma onMotion_prevSample:
  "prevSample (fst (snd (onMotion e t now st))) =
     \<lparr>prev_ax = ax (highpass (hpState st) (raw_axes e) (recentAccel st)),
      prev_ay = ay (highpass (hpState st) (raw_axes e) (recentAccel st)),
      prev_az = az (highpass (hpState st) (raw_axes e) (recentAccel st)),
      prev_t = t\<rparr>"
  by (simp add: onMotion_def Let_def split: option.splits prod.splits)

lemma onMotion_prev_is_hp: "prev_is_hp (fst (snd (onMotion e t now st)))"
  by (simp add: prev_is_hp_def onMotion_hpState onMotion_prevSample)

lemma onMotion_run_prev_is_hp:
  "prev_is_hp st \<Longrightarrow> prev_is_hp (snd (onMotion_run st samples))"
proof (induction samples arbitrary: st)
  case Nil
  then show ?case by simp
next
  case (Cons s samples)
  obtain e t now where s: "s = (e, t, now)" by (cases s)
  have "prev_is_hp (fst (snd (onMotion e t now st)))" by (rule onMotion_prev_is_hp)
  then have "prev_is_hp (snd (onMotion_run (fst (snd (onMotion e t now st))) samples))"
    by (rule Cons.IH)
  then show ?case by (simp add: s split_beta Let_def)
qed

lemma jerk_positive_dt:
  "0 < t - prev_t pr \<Longrightarrow>
   jerk hp pr t =
     sqrt (((ax hp - prev_ax pr) / ((t - prev_t pr) / 1000))\<^sup>2 +
           ((ay hp - prev_ay pr) / ((t - prev_t pr) / 1000))\<^sup>2 +
           ((az hp - prev_az pr) / ((t - prev_t pr) / 1000))\<^sup>2)"
  by (simp add: jerk_def Let_def power2_eq_square)

lemma jerk_nonpositive_dt: "t - prev_t pr \<le> 0 \<Longrightarrow> jerk hp pr t = 0"
  by (simp add: jerk_def Let_def)

text \<open>
  Claim C8.  On every sample the jerk-based listener sets each axis of the high-pass
  state to 0.8 times (its old value plus the sample's axis minus the previous raw
  axis), and remembers the sample as the previous raw one.  With \<open>dt\<close> the seconds since
  the previous sample, the metric is, for \<open>dt > 0\<close>, the Euclidean norm of the vector
  of per-axis differences between the new filtered value and the one kept in \<open>prev\<close>,
  each divided by \<open>dt\<close>; \<open>prev\<close> is the filtered vector of the sample before, after
  every sample and along every run of the listener from its initial state.  For
  \<open>dt \<le> 0\<close> the metric is 0.
\<close>

theorem jerk_metric_of_highpassed_sample:
  assumes "st' = fst (snd (onMotion e t now st))"
    and "dt = (t - prev_t (prevSample st)) / 1000"
  shows "ax (hpState st') = 0.8 * (ax (hpState st) + ax (raw_axes e) - ax (recentAccel st)) \<and>
         ay (hpState st') = 0.8 * (ay (hpState st) + ay (raw_axes e) - ay (recentAccel st)) \<and>
         az (hpState st') = 0.8 * (az (hpState st) + az (raw_axes e) - az (recentAccel st)) \<and>
         recentAccel st' = raw_axes e \<and> prev_t (prevSample st') = t \<and>
         (0 < dt \<longrightarrow>
            fst (onMotion e t now st) =
              sqrt (((ax (hpState st') - prev_ax (prevSample st)) / dt)\<^sup>2 +
                    ((ay (hpState st') - prev_ay (prevSample st)) / dt)\<^sup>2 +
                    ((az (hpState st') - prev_az (prevSample st)) / dt)\<^sup>2)) \<and>
         (0 < dt \<and> prev_is_hp st \<longrightarrow>
            fst (onMotion e t now st) =
              sqrt (((ax (hpState st') - ax (hpState st)) / dt)\<^sup>2 +
                    ((ay (hpState st') - ay (hpState st)) / dt)\<^sup>2 +
                    ((az (hpState st') - az (hpState st)) / dt)\<^sup>2)) \<and>
         (dt \<le> 0 \<longrightarrow> fst (onMotion e t now st) = 0) \<and>
         prev_is_hp st' \<and>
         prev_is_hp (snd (onMotion_run (initial_tracker dev) samples))"
proof -
  have init: "prev_is_hp (initial_tracker dev)"
    by (simp add: prev_is_hp_def initial_tracker_def)
  have pos: "0 < dt \<longleftrightarrow> 0 < t - prev_t (prevSample st)"
    and neg: "dt \<le> 0 \<longleftrightarrow> t - prev_t (prevSample st) \<le> 0"
    by (simp_all add: assms(2))
  have hp: "hpState st' = highpass (hpState st) (raw_axes e) (recentAccel st)"
    by (simp add: assms(1) onMotion_hpState)
  have m1: "0 < dt \<longrightarrow>
            fst (onMotion e t now st) =
              sqrt (((ax (hpState st') - prev_ax (prevSample st)) / dt)\<^sup>2 +
                    ((ay (hpState st') - prev_ay (prevSample st)) / dt)\<^sup>2 +
                    ((az (hpState st') - prev_az (prevSample st)) / dt)\<^sup>2)"
  proof
    assume "0 < dt"
    then have "0 < t - prev_t (prevSample st)" by (simp add: pos)
    from jerk_positive_dt [OF this] show "fst (onMotion e t now st) =
              sqrt (((ax (hpState st') - prev_ax (prevSample st)) / dt)\<^sup>2 +
                    ((ay (hpState st') - prev_ay (prevSample st)) / dt)\<^sup>2 +
                    ((az (hpState st') - prev_az (prevSample st)) / dt)\<^sup>2)"
      unfolding onMotion_metric hp assms(2) .
  qed
  have m2: "dt \<le> 0 \<longrightarrow> fst (onMotion e t now st) = 0"
  proof
    assume "dt \<le> 0"
    then have "t - prev_t (prevSample st) \<le> 0" by (simp add: neg)
    from jerk_nonpositive_dt [OF this] show "fst (onMotion e t now st) = 0"
      unfolding onMotion_metric .
  qed
  have m3: "0 < dt \<and> prev_is_hp st \<longrightarrow>
            fst (onMotion e t now st) =
              sqrt (((ax (hpState st') - ax (hpState st)) / dt)\<^sup>2 +
                    ((ay (hpState st') - ay (hpState st)) / dt)\<^sup>2 +
                    ((az (hpState st') - az (hpState st)) / dt)\<^sup>2)"
    using m1 by (auto simp: prev_is_hp_def)
  have rest: "ax (hpState st') = 0.8 * (ax (hpState st) + ax (raw_axes e) - ax (recentAccel st)) \<and>
         ay (hpState st') = 0.8 * (ay (hpState st) + ay (raw_axes e) - ay (recentAccel st)) \<and>
         az (hpState st') = 0.8 * (az (hpState st) + az (raw_axes e) - az (recentAccel st)) \<and>
         recentAccel st' = raw_axes e \<and> prev_t (prevSample st') = t"
    unfolding hp by (simp add: highpass_def assms(1) onMotion_recentAccel onMotion_prevSample)
  have inv: "prev_is_hp st'" unfolding assms(1) by (rule onMotion_prev_is_hp)
  from rest m1 m2 m3 inv onMotion_run_prev_is_hp [OF init] show ?thesis by blast
qed

theorem jerk_metric_of_highpassed_sample_witness:
  "(0 :: real) < (1000 - prev_t (prevSample (initial_tracker ''d''))) / 1000 \<and>
   prev_is_hp (initial_tracker ''d'') \<and>
   az (hpState (fst (snd (onMotion (Some \<lparr>g_x = Some 0, g_y = Some 0, g_z = Some 10\<rparr>)
         1000 1700000000000 (initial_tracker ''d''))))) = 8 \<and>
   fst (onMotion (Some \<lparr>g_x = Some 0, g_y = Some 0, g_z = Some 10\<rparr>)
         1000 1700000000000 (initial_tracker ''d'')) = 8 \<and>
   (1000 - prev_t (prevSample (fst (snd (onMotion (Some \<lparr>g_x = Some 0, g_y = Some 0, g_z = Some 10\<rparr>)
         1000 1700000000000 (initial_tracker ''d'')))))) / 1000 \<le> (0 :: real) \<and>
   fst (onMotion (Some \<lparr>g_x = Some 0, g_y = Some 0, g_z = Some 10\<rparr>) 1000 1700000000016
         (fst (snd (onMotion (Some \<lparr>g_x = Some 0, g_y = Some 0, g_z = Some 10\<rparr>)
            1000 1700000000000 (initial_tracker ''d''))))) = 0"
proof -
  let ?e = "Some \<lparr>g_x = Some 0, g_y = Some 0, g_z = Some 10\<rparr>"
  let ?s0 = "initial_tracker ''d''"
  let ?s1 = "fst (snd (onMotion ?e 1000 1700000000000 ?s0))"
  have raw: "raw_axes ?e = \<lparr>ax = 0, ay = 0, az = 10\<rparr>"
    by (simp add: raw_axes_def axis_def)
  have init: "prev_is_hp ?s0" "prev_t (prevSample ?s0) = 0" "hpState ?s0 = \<lparr>ax = 0, ay = 0, az = 0\<rparr>"
    "recentAccel ?s0 = \<lparr>ax = 0, ay = 0, az = 0\<rparr>"
    by (simp_all add: prev_is_hp_def initial_tracker_def)
  have sq: "sqrt 64 = 8" by (rule real_sqrt_unique) simp_all
  note t1 = jerk_metric_of_highpassed_sample [OF refl refl, of ?e 1000 1700000000000 ?s0 "''d''" "[]"]
  note t2 = jerk_metric_of_highpassed_sample [OF refl refl, of ?e 1000 1700000000016 ?s1 "''d''" "[]"]
  from t1 have hp1: "az (hpState ?s1) = 8" "ax (hpState ?s1) = 0" "ay (hpState ?s1) = 0"
    and pt1: "prev_t (prevSample ?s1) = 1000"
    by (simp_all add: raw init)
  from t1 have m1: "fst (onMotion ?e 1000 1700000000000 ?s0) = 8"
    by (simp add: init hp1 sq)
  from t2 have m2: "fst (onMotion ?e 1000 1700000000016 ?s1) = 0"
    by (simp add: pt1)
  from hp1 pt1 m1 m2 init show ?thesis by simp
qed

section \<open>The threshold and cooldown gate\<close>

lemma handler_fires_iff:
  "snd (handler event now timeStr st) \<noteq> [] \<longleftrightarrow>
     acc_linear (reading event) > effectiveSensitivity st \<and>
     now - lastBumpRef st > effectiveCooldown st"
  by (simp add: handler_def Let_def)

lemma base_handler_fires_iff:
  "snd (base_handler event now timeStr st) \<noteq> [] \<longleftrightarrow>
     acc_linear (reading event) > base_sensitivity st \<and>
     now - base_lastBumpRef st > base_cooldownMs st"
  by (simp add: base_handler_def Let_def)

lemma lastBumpRef_addRedSegmentNear [simp]:
  "lastBumpRef (addRedSegmentNear a b st) = lastBumpRef st"
  by (simp add: addRedSegmentNear_def split: option.splits)

lemma bumps_addRedSegmentNear [simp]: "bumps (addRedSegmentNear a b st) = bumps st"
  by (simp add: addRedSegmentNear_def split: option.splits)

lemma handler_quiet:
  "snd (handler event now timeStr st) = [] \<Longrightarrow>
   bumps (fst (handler event now timeStr st)) = bumps st \<and>
   lastBumpRef (fst (handler event now timeStr st)) = lastBumpRef st"
  by (simp add: handler_def Let_def split: if_splits)

lemma handler_fired:
  "snd (handler event now timeStr st) \<noteq> [] \<Longrightarrow>
   lastBumpRef (fst (handler event now timeStr st)) = now \<and>
   map bump_id (bumps (fst (handler event now timeStr st))) = now # map bump_id (bumps st) \<and>
   map (\<lambda>m. (fst m, bump_id (snd m))) (snd (handler event now timeStr st)) = [(''send-bump'', now)]"
  by (simp add: handler_def Let_def split: if_splits)

lemma base_handler_quiet:
  "snd (base_handler event now timeStr st) = [] \<Longrightarrow>
   base_bumps (fst (base_handler event now timeStr st)) = base_bumps st \<and>
   base_lastBumpRef (fst (base_handler event now timeStr st)) = base_lastBumpRef st"
  by (simp add: base_handler_def Let_def split: if_splits)

lemma base_handler_fired:
  "snd (base_handler event now timeStr st) \<noteq> [] \<Longrightarrow>
   base_lastBumpRef (fst (base_handler event now timeStr st)) = now \<and>
   map bump_id (base_bumps (fst (base_handler event now timeStr st))) =
     now # map bump_id (base_bumps st) \<and>
   map (\<lambda>m. (fst m, bump_id (snd m))) (snd (base_handler event now timeStr st)) =
     [(''send-bump'', now)]"
  by (simp add: base_handler_def Let_def split: if_splits)

lemma linear_vertical:
  "acc_linear (reading (Some \<lparr>g_x = Some 0, g_y = Some 0, g_z = Some z\<rparr>)) = \<bar>\<bar>z\<bar> - 9.81\<bar>"
  by (simp add: reading_vertical)

lemma example_run_app:
  assumes "1800 < T0"
  shows "map bump_id (bumps (fst (app_run
           (initial_app\<lparr>detecting := True, autoTune := False, manualSensitivity := 15,
                         manualCooldownMs := 1800\<rparr>)
           [DeviceMotion (Some \<lparr>g_x = Some 0, g_y = Some 0, g_z = Some 14.81\<rparr>) T0 ts,
            DeviceMotion (Some \<lparr>g_x = Some 0, g_y = Some 0, g_z = Some 29.81\<rparr>) (T0 + 100) ts,
            DeviceMotion (Some \<lparr>g_x = Some 0, g_y = Some 0, g_z = Some 12.81\<rparr>) (T0 + 200) ts,
            DeviceMotion (Some \<lparr>g_x = Some 0, g_y = Some 0, g_z = Some 31.81\<rparr>) (T0 + 2000) ts]))) =
         [T0 + 2000, T0 + 100]"
  using assms
  by (simp add: handler_def reading_vertical initial_app_def effectiveSensitivity_def
      effectiveCooldown_def highThreshold_def addRedSegmentNear_def redSegmentNear_def Let_def)

lemma example_run_base:
  assumes "1800 < T0"
  shows "map bump_id (base_bumps (fst (base_run
           (initial_base_app\<lparr>base_sensitivity := 15, base_cooldownMs := 1800\<rparr>)
           [(Some \<lparr>g_x = Some 0, g_y = Some 0, g_z = Some 14.81\<rparr>, T0, ts),
            (Some \<lparr>g_x = Some 0, g_y = Some 0, g_z = Some 29.81\<rparr>, T0 + 100, ts),
            (Some \<lparr>g_x = Some 0, g_y = Some 0, g_z = Some 12.81\<rparr>, T0 + 200, ts),
            (Some \<lparr>g_x = Some 0, g_y = Some 0, g_z = Some 31.81\<rparr>, T0 + 2000, ts)]))) =
         [T0 + 2000, T0 + 100]"
  using assms
  by (simp add: base_handler_def reading_vertical initial_base_app_def Let_def)

text \<open>
  Claim C1.  In both threshold front ends a sample produces a bump exactly when its
  metric is above the sensitivity and the time since the last bump is above the
  cooldown, both strictly: \<open>now - lastBumpRef > cooldown\<close>.  While the time since the
  last bump is at most the cooldown nothing is produced, whatever the metric, and the
  detector's state stays as it is; a bump sets the time of the last bump to \<open>now\<close>.
  \<open>lastBumpRef\<close> starts at 0 and \<open>now\<close> is the wall clock, so take the times of the
  example as offsets from a clock reading \<open>T0 > 1800\<close>: for the metrics 5, 20, 3, 22 at
  \<open>T0\<close>, \<open>T0 + 100\<close>, \<open>T0 + 200\<close>, \<open>T0 + 2000\<close>, with threshold 15 and cooldown 1800,
  the bumps are those at \<open>T0 + 100\<close> and \<open>T0 + 2000\<close> (newest first in the list), and
  the sample at \<open>T0 + 200\<close> produces none.
\<close>

theorem bump_fires_iff_over_threshold_and_past_cooldown:
  assumes "1800 < T0"
  shows "(snd (handler event now timeStr st) \<noteq> [] \<longleftrightarrow>
            acc_linear (reading event) > effectiveSensitivity st \<and>
            now - lastBumpRef st > effectiveCooldown st) \<and>
         (snd (base_handler event now timeStr bst) \<noteq> [] \<longleftrightarrow>
            acc_linear (reading event) > base_sensitivity bst \<and>
            now - base_lastBumpRef bst > base_cooldownMs bst) \<and>
         (now - lastBumpRef st \<le> effectiveCooldown st \<longrightarrow>
            snd (handler event now timeStr st) = [] \<and>
            bumps (fst (handler event now timeStr st)) = bumps st \<and>
            lastBumpRef (fst (handler event now timeStr st)) = lastBumpRef st) \<and>
         (now - base_lastBumpRef bst \<le> base_cooldownMs bst \<longrightarrow>
            snd (base_handler event now timeStr bst) = [] \<and>
            base_bumps (fst (base_handler event now timeStr bst)) = base_bumps bst \<and>
            base_lastBumpRef (fst (base_handler event now timeStr bst)) = base_lastBumpRef bst) \<and>
         (snd (handler event now timeStr st) \<noteq> [] \<longrightarrow>
            lastBumpRef (fst (handler event now timeStr st)) = now \<and>
            map bump_id (bumps (fst (handler event now timeStr st))) =
              now # map bump_id (bumps st)) \<and>
         (snd (base_handler event now timeStr bst) \<noteq> [] \<longrightarrow>
            base_lastBumpRef (fst (base_handler event now timeStr bst)) = now \<and>
            map bump_id (base_bumps (fst (base_handler event now timeStr bst))) =
              now # map bump_id (base_bumps bst)) \<and>
         map bump_id (bumps (fst (app_run
           (initial_app\<lparr>detecting := True, autoTune := False, manualSensitivity := 15,
                         manualCooldownMs := 1800\<rparr>)
           [DeviceMotion (Some \<lparr>g_x = Some 0, g_y = Some 0, g_z = Some 14.81\<rparr>) T0 ts,
            DeviceMotion (Some \<lparr>g_x = Some 0, g_y = Some 0, g_z = Some 29.81\<rparr>) (T0 + 100) ts,
            DeviceMotion (Some \<lparr>g_x = Some 0, g_y = Some 0, g_z = Some 12.81\<rparr>) (T0 + 200) ts,
            DeviceMotion (Some \<lparr>g_x = Some 0, g_y = Some 0, g_z = Some 31.81\<rparr>) (T0 + 2000) ts]))) =
           [T0 + 2000, T0 + 100] \<and>
         map bump_id (base_bumps (fst (base_run
           (initial_base_app\<lparr>base_sensitivity := 15, base_cooldownMs := 1800\<rparr>)
           [(Some \<lparr>g_x = Some 0, g_y = Some 0, g_z = Some 14.81\<rparr>, T0, ts),
            (Some \<lparr>g_x = Some 0, g_y = Some 0, g_z = Some 29.81\<rparr>, T0 + 100, ts),
            (Some \<lparr>g_x = Some 0, g_y = Some 0, g_z = Some 12.81\<rparr>, T0 + 200, ts),
            (Some \<lparr>g_x = Some 0, g_y = Some 0, g_z = Some 31.81\<rparr>, T0 + 2000, ts)]))) =
           [T0 + 2000, T0 + 100]"
proof -
  have q: "now - lastBumpRef st \<le> effectiveCooldown st \<longrightarrow>
            snd (handler event now timeStr st) = [] \<and>
            bumps (fst (handler event now timeStr st)) = bumps st \<and>
            lastBumpRef (fst (handler event now timeStr st)) = lastBumpRef st"
    by (simp add: handler_def Let_def)
  have bq: "now - base_lastBumpRef bst \<le> base_cooldownMs bst \<longrightarrow>
            snd (base_handler event now timeStr bst) = [] \<and>
            base_bumps (fst (base_handler event now timeStr bst)) = base_bumps bst \<and>
            base_lastBumpRef (fst (base_handler event now timeStr bst)) = base_lastBumpRef bst"
    by (simp add: base_handler_def Let_def)
  from handler_fires_iff [of event now timeStr st]
    base_handler_fires_iff [of event now timeStr bst] q bq
    handler_fired [of event now timeStr st] base_handler_fired [of event now timeStr bst]
    example_run_app [OF assms, of ts] example_run_base [OF assms, of ts]
  show ?thesis by blast
qed

theorem bump_fires_iff_over_threshold_and_past_cooldown_witness:
  "(1800 :: int) < 1700000000000 \<and>
   snd (handler (Some \<lparr>g_x = Some 0, g_y = Some 0, g_z = Some 29.81\<rparr>) 1700000000100 ''t''
         (initial_app\<lparr>detecting := True, autoTune := False, manualSensitivity := 15,
                       manualCooldownMs := 1800\<rparr>)) \<noteq> [] \<and>
   1700000000200 - lastBumpRef (fst (handler (Some \<lparr>g_x = Some 0, g_y = Some 0, g_z = Some 29.81\<rparr>)
         1700000000100 ''t''
         (initial_app\<lparr>detecting := True, autoTune := False, manualSensitivity := 15,
                       manualCooldownMs := 1800\<rparr>))) \<le> 1800 \<and>
   snd (handler (Some \<lparr>g_x = Some 0, g_y = Some 0, g_z = Some 109.81\<rparr>) 1700000000200 ''t''
         (fst (handler (Some \<lparr>g_x = Some 0, g_y = Some 0, g_z = Some 29.81\<rparr>) 1700000000100 ''t''
           (initial_app\<lparr>detecting := True, autoTune := False, manualSensitivity := 15,
                         manualCooldownMs := 1800\<rparr>)))) = [] \<and>
   map bump_id (bumps (fst (app_run
     (initial_app\<lparr>detecting := True, autoTune := False, manualSensitivity := 15,
                   manualCooldownMs := 1800\<rparr>)
     [DeviceMotion (Some \<lparr>g_x = Some 0, g_y = Some 0, g_z = Some 14.81\<rparr>) 1700000000000 ''t'',
      DeviceMotion (Some \<lparr>g_x = Some 0, g_y = Some 0, g_z = Some 29.81\<rparr>) (1700000000000 + 100) ''t'',
      DeviceMotion (Some \<lparr>g_x = Some 0, g_y = Some 0, g_z = Some 12.81\<rparr>) (1700000000000 + 200) ''t'',
      DeviceMotion (Some \<lparr>g_x = Some 0, g_y = Some 0, g_z = Some 31.81\<rparr>) (1700000000000 + 2000) ''t'']))) =
     [1700000002000, 1700000000100] \<and>
   map bump_id (base_bumps (fst (base_run
     (initial_base_app\<lparr>base_sensitivity := 15, base_cooldownMs := 1800\<rparr>)
     [(Some \<lparr>g_x = Some 0, g_y = Some 0, g_z = Some 14.81\<rparr>, 1700000000000, ''t''),
      (Some \<lparr>g_x = Some 0, g_y = Some 0, g_z = Some 29.81\<rparr>, 1700000000000 + 100, ''t''),
      (Some \<lparr>g_x = Some 0, g_y = Some 0, g_z = Some 12.81\<rparr>, 1700000000000 + 200, ''t''),
      (Some \<lparr>g_x = Some 0, g_y = Some 0, g_z = Some 31.81\<rparr>, 1700000000000 + 2000, ''t'')]))) =
     [1700000002000, 1700000000100]"
proof -
  let ?s0 = "initial_app\<lparr>detecting := True, autoTune := False, manualSensitivity := 15,
                          manualCooldownMs := 1800\<rparr>"
  let ?e = "Some \<lparr>g_x = Some 0, g_y = Some 0, g_z = Some 29.81\<rparr>"
  let ?big = "Some \<lparr>g_x = Some 0, g_y = Some 0, g_z = Some 109.81\<rparr>"
  let ?s1 = "fst (handler ?e 1700000000100 ''t'' ?s0)"
  have b: "(1800 :: int) < 1700000000000" by simp
  have cfg0: "effectiveSensitivity ?s0 = 15" "effectiveCooldown ?s0 = 1800" "lastBumpRef ?s0 = 0"
    by (simp_all add: effectiveSensitivity_def effectiveCooldown_def initial_app_def)
  note t1 = bump_fires_iff_over_threshold_and_past_cooldown
      [OF b, of ?e 1700000000100 "''t''" ?s0 initial_base_app "''t''"]
  have f1: "snd (handler ?e 1700000000100 ''t'' ?s0) \<noteq> []"
    using t1 [THEN conjunct1] by (simp add: cfg0 linear_vertical)
  have l1: "lastBumpRef ?s1 = 1700000000100"
    using t1 [THEN conjunct2, THEN conjunct2, THEN conjunct2, THEN conjunct2, THEN conjunct1] f1
    by blast
  have cfg1: "effectiveCooldown ?s1 = 1800"
    by (simp add: handler_def Let_def effectiveSensitivity_def effectiveCooldown_def
        initial_app_def linear_vertical highThreshold_def addRedSegmentNear_def redSegmentNear_def)
  have le2: "1700000000200 - lastBumpRef ?s1 \<le> 1800" unfolding l1 by simp
  note t2 = bump_fires_iff_over_threshold_and_past_cooldown
      [OF b, of ?big 1700000000200 "''t''" ?s1 initial_base_app "''t''"]
  have q2: "snd (handler ?big 1700000000200 ''t'' ?s1) = []"
    using t2 [THEN conjunct2, THEN conjunct2, THEN conjunct1] le2 unfolding cfg1 by blast
  note ex1 = t1 [THEN conjunct2, THEN conjunct2, THEN conjunct2, THEN conjunct2, THEN conjunct2,
      THEN conjunct2, THEN conjunct1]
  note ex2 = t1 [THEN conjunct2, THEN conjunct2, THEN conjunct2, THEN conjunct2, THEN conjunct2,
      THEN conjunct2, THEN conjunct2]
  have ex1': "map bump_id (bumps (fst (app_run ?s0
     [DeviceMotion (Some \<lparr>g_x = Some 0, g_y = Some 0, g_z = Some 14.81\<rparr>) 1700000000000 ''t'',
      DeviceMotion (Some \<lparr>g_x = Some 0, g_y = Some 0, g_z = Some 29.81\<rparr>) (1700000000000 + 100) ''t'',
      DeviceMotion (Some \<lparr>g_x = Some 0, g_y = Some 0, g_z = Some 12.81\<rparr>) (1700000000000 + 200) ''t'',
      DeviceMotion (Some \<lparr>g_x = Some 0, g_y = Some 0, g_z = Some 31.81\<rparr>) (1700000000000 + 2000) ''t'']))) =
     [1700000002000, 1700000000100]"
    unfolding ex1 by simp
  have ex2': "map bump_id (base_bumps (fst (base_run
     (initial_base_app\<lparr>base_sensitivity := 15, base_cooldownMs := 1800\<rparr>)
     [(Some \<lparr>g_x = Some 0, g_y = Some 0, g_z = Some 14.81\<rparr>, 1700000000000, ''t''),
      (Some \<lparr>g_x = Some 0, g_y = Some 0, g_z = Some 29.81\<rparr>, 1700000000000 + 100, ''t''),
      (Some \<lparr>g_x = Some 0, g_y = Some 0, g_z = Some 12.81\<rparr>, 1700000000000 + 200, ''t''),
      (Some \<lparr>g_x = Some 0, g_y = Some 0, g_z = Some 31.81\<rparr>, 1700000000000 + 2000, ''t'')]))) =
     [1700000002000, 1700000000100]"
    unfolding ex2 by simp
  from b f1 le2 q2 ex1' ex2' show ?thesis by blast
qed

text \<open>
  With ``at least the cooldown'' in place of ``more than the cooldown'' the statement
  fails: a bump at 1700000000100, then a sample of metric 20 exactly 1800 ms later, with
  threshold 15 and cooldown 1800.  The elapsed time equals the cooldown, the metric is
  above the threshold, and neither front end produces a bump.
\<close>

theorem armed_at_exact_cooldown_counterexample:
  "acc_linear (reading (Some \<lparr>g_x = Some 0, g_y = Some 0, g_z = Some 29.81\<rparr>)) >
     effectiveSensitivity (fst (handler (Some \<lparr>g_x = Some 0, g_y = Some 0, g_z = Some 29.81\<rparr>)
         1700000000100 ''t''
         (initial_app\<lparr>detecting := True, autoTune := False, manualSensitivity := 15,
                       manualCooldownMs := 1800\<rparr>))) \<and>
   1700000001900 - lastBumpRef (fst (handler (Some \<lparr>g_x = Some 0, g_y = Some 0, g_z = Some 29.81\<rparr>)
         1700000000100 ''t''
         (initial_app\<lparr>detecting := True, autoTune := False, manualSensitivity := 15,
                       manualCooldownMs := 1800\<rparr>))) \<ge>
     effectiveCooldown (fst (handler (Some \<lparr>g_x = Some 0, g_y = Some 0, g_z = Some 29.81\<rparr>)
         1700000000100 ''t''
         (initial_app\<lparr>detecting := True, autoTune := False, manualSensitivity := 15,
                       manualCooldownMs := 1800\<rparr>))) \<and>
   snd (handler (Some \<lparr>g_x = Some 0, g_y = Some 0, g_z = Some 29.81\<rparr>) 1700000001900 ''t''
         (fst (handler (Some \<lparr>g_x = Some 0, g_y = Some 0, g_z = Some 29.81\<rparr>) 1700000000100 ''t''
           (initial_app\<lparr>detecting := True, autoTune := False, manualSensitivity := 15,
                         manualCooldownMs := 1800\<rparr>)))) = [] \<and>
   acc_linear (reading (Some \<lparr>g_x = Some 0, g_y = Some 0, g_z = Some 29.81\<rparr>)) >
     base_sensitivity (fst (base_handler (Some \<lparr>g_x = Some 0, g_y = Some 0, g_z = Some 29.81\<rparr>)
         1700000000100 ''t'' (initial_base_app\<lparr>base_sensitivity := 15, base_cooldownMs := 1800\<rparr>))) \<and>
   1700000001900 - base_lastBumpRef (fst (base_handler
         (Some \<lparr>g_x = Some 0, g_y = Some 0, g_z = Some 29.81\<rparr>)
         1700000000100 ''t'' (initial_base_app\<lparr>base_sensitivity := 15, base_cooldownMs := 1800\<rparr>))) \<ge>
     base_cooldownMs (fst (base_handler (Some \<lparr>g_x = Some 0, g_y = Some 0, g_z = Some 29.81\<rparr>)
         1700000000100 ''t'' (initial_base_app\<lparr>base_sensitivity := 15, base_cooldownMs := 1800\<rparr>))) \<and>
   snd (base_handler (Some \<lparr>g_x = Some 0, g_y = Some 0, g_z = Some 29.81\<rparr>) 1700000001900 ''t''
         (fst (base_handler (Some \<lparr>g_x = Some 0, g_y = Some 0, g_z = Some 29.81\<rparr>) 1700000000100 ''t''
           (initial_base_app\<lparr>base_sensitivity := 15, base_cooldownMs := 1800\<rparr>)))) = []"
  by (simp add: handler_def base_handler_def Let_def effectiveSensitivity_def effectiveCooldown_def
      initial_app_def initial_base_app_def reading_vertical highThreshold_def
      addRedSegmentNear_def redSegmentNear_def)

section \<open>The segment correlator\<close>

text \<open>
  The loop by indices: started at \<open>i\<close> below the limit, it stops at some \<open>k\<close> between 1
  and \<open>i\<close>, has put the points \<open>k, \<dots>, i\<close> in front of the segment and has added, for
  each of them, the distance from point \<open>m\<close> back to point \<open>m - 1\<close>.
\<close>

lemma backtrack_index:
  assumes "acc < MAX_BACK_METERS" and "1 \<le> i"
  shows "\<exists>k. 1 \<le> k \<and> k \<le> i \<and>
           fst (backtrack pth i seg acc) = map ((!) pth) [k..<Suc i] @ seg \<and>
           snd (backtrack pth i seg acc) =
             acc + (\<Sum>m = k..i. haversineMeters (fst (pth ! m)) (snd (pth ! m))
                                   (fst (pth ! (m - 1))) (snd (pth ! (m - 1)))) \<and>
           (MAX_BACK_METERS \<le> snd (backtrack pth i seg acc) \<or> k = 1) \<and>
           acc + (\<Sum>m = Suc k..i. haversineMeters (fst (pth ! m)) (snd (pth ! m))
                                   (fst (pth ! (m - 1))) (snd (pth ! (m - 1)))) < MAX_BACK_METERS"
  using assms
proof (induction i arbitrary: seg acc)
  case 0
  then show ?case by simp
next
  case (Suc j)
  let ?h = "\<lambda>m. haversineMeters (fst (pth ! m)) (snd (pth ! m))
                                   (fst (pth ! (m - 1))) (snd (pth ! (m - 1)))"
  let ?acc1 = "acc + ?h (Suc j)"
  show ?case
  proof (cases "MAX_BACK_METERS \<le> ?acc1 \<or> j = 0")
    case True
    then have r: "backtrack pth (Suc j) seg acc = (pth ! Suc j # seg, ?acc1)"
      by (auto simp: Let_def)
    have "1 \<le> Suc j \<and> Suc j \<le> Suc j \<and>
           fst (backtrack pth (Suc j) seg acc) = map ((!) pth) [Suc j..<Suc (Suc j)] @ seg \<and>
           snd (backtrack pth (Suc j) seg acc) = acc + (\<Sum>m = Suc j..Suc j. ?h m) \<and>
           (MAX_BACK_METERS \<le> snd (backtrack pth (Suc j) seg acc) \<or> Suc j = 1) \<and>
           acc + (\<Sum>m = Suc (Suc j)..Suc j. ?h m) < MAX_BACK_METERS"
      using True Suc.prems(1) unfolding r by auto
    then show ?thesis by blast
  next
    case False
    then have lt: "?acc1 < MAX_BACK_METERS" and j: "1 \<le> j" by auto
    from False have r: "backtrack pth (Suc j) seg acc = backtrack pth j (pth ! Suc j # seg) ?acc1"
      by (auto simp: Let_def)
    from Suc.IH [OF lt j, of "pth ! Suc j # seg"] obtain k where k: "1 \<le> k" "k \<le> j"
      and f: "fst (backtrack pth j (pth ! Suc j # seg) ?acc1) =
                map ((!) pth) [k..<Suc j] @ pth ! Suc j # seg"
      and s: "snd (backtrack pth j (pth ! Suc j # seg) ?acc1) = ?acc1 + (\<Sum>m = k..j. ?h m)"
      and d: "MAX_BACK_METERS \<le> snd (backtrack pth j (pth ! Suc j # seg) ?acc1) \<or> k = 1"
      and b: "?acc1 + (\<Sum>m = Suc k..j. ?h m) < MAX_BACK_METERS"
      by blast
    have s1: "(\<Sum>m = k..Suc j. ?h m) = (\<Sum>m = k..j. ?h m) + ?h (Suc j)"
      using k by simp
    have s2: "(\<Sum>m = Suc k..Suc j. ?h m) = (\<Sum>m = Suc k..j. ?h m) + ?h (Suc j)"
      using k by simp
    have "1 \<le> k \<and> k \<le> Suc j \<and>
           fst (backtrack pth (Suc j) seg acc) = map ((!) pth) [k..<Suc (Suc j)] @ seg \<and>
           snd (backtrack pth (Suc j) seg acc) = acc + (\<Sum>m = k..Suc j. ?h m) \<and>
           (MAX_BACK_METERS \<le> snd (backtrack pth (Suc j) seg acc) \<or> k = 1) \<and>
           acc + (\<Sum>m = Suc k..Suc j. ?h m) < MAX_BACK_METERS"
      unfolding r s1 s2 using k f s d b by auto
    then show ?thesis by blast
  qed
qed

lemma arc_length_nths:
  "k \<le> i \<Longrightarrow>
   arc_length (map ((!) pth) [k..<Suc i]) =
     (\<Sum>m = Suc k..i. haversineMeters (fst (pth ! m)) (snd (pth ! m))
                        (fst (pth ! (m - 1))) (snd (pth ! (m - 1))))"
proof (induction "i - k" arbitrary: k)
  case 0
  then have "k = i" by simp
  then show ?case by simp
next
  case (Suc d)
  then have lt: "k < i" and d: "d = i - Suc k" and le: "Suc k \<le> i" by simp_all
  have u1: "[k..<Suc i] = k # Suc k # [Suc (Suc k)..<Suc i]"
    using lt by (simp add: upt_conv_Cons)
  have u2: "[Suc k..<Suc i] = Suc k # [Suc (Suc k)..<Suc i]"
    using lt by (simp add: upt_conv_Cons)
  have "arc_length (map ((!) pth) [k..<Suc i]) =
      haversineMeters (fst (pth ! Suc k)) (snd (pth ! Suc k)) (fst (pth ! k)) (snd (pth ! k)) +
      arc_length (map ((!) pth) [Suc k..<Suc i])"
    unfolding u1 u2 by simp
  also have "arc_length (map ((!) pth) [Suc k..<Suc i]) =
     (\<Sum>m = Suc (Suc k)..i. haversineMeters (fst (pth ! m)) (snd (pth ! m))
                        (fst (pth ! (m - 1))) (snd (pth ! (m - 1))))"
    using Suc.hyps(1) [OF d le] .
  finally show ?case using le by (simp add: sum.atLeast_Suc_atMost)
qed

lemma nths_drop: "k \<le> length pth \<Longrightarrow> map ((!) pth) [k..<length pth] = drop k pth"
  by (rule nth_equalityI) simp_all

lemma redSegmentNear_backtracks:
  assumes "2 \<le> length pth"
  shows "\<exists>k. 1 \<le> k \<and> k < length pth \<and>
           redSegmentNear centerLat centerLon pth = Some (drop k pth @ [(centerLat, centerLon)]) \<and>
           snd (backtrack pth (length pth - 1) [(centerLat, centerLon)] 0) =
             arc_length (drop (k - 1) pth) \<and>
           (MAX_BACK_METERS \<le> arc_length (drop (k - 1) pth) \<or> k = 1) \<and>
           arc_length (drop k pth) < MAX_BACK_METERS"
proof -
  let ?i = "length pth - 1"
  let ?c = "[(centerLat, centerLon)]"
  let ?h = "\<lambda>m. haversineMeters (fst (pth ! m)) (snd (pth ! m))
                                   (fst (pth ! (m - 1))) (snd (pth ! (m - 1)))"
  from assms have i: "1 \<le> ?i" and si: "Suc ?i = length pth" by simp_all
  have "(0 :: real) < MAX_BACK_METERS" by simp
  from backtrack_index [OF this i, of pth ?c] obtain k where k: "1 \<le> k" "k \<le> ?i"
    and f: "fst (backtrack pth ?i ?c 0) = map ((!) pth) [k..<Suc ?i] @ ?c"
    and s: "snd (backtrack pth ?i ?c 0) = 0 + (\<Sum>m = k..?i. ?h m)"
    and d: "MAX_BACK_METERS \<le> snd (backtrack pth ?i ?c 0) \<or> k = 1"
    and b: "0 + (\<Sum>m = Suc k..?i. ?h m) < MAX_BACK_METERS"
    by blast
  from k have kl: "k < length pth" "k \<le> length pth" "k - 1 \<le> length pth" "k - 1 \<le> ?i"
    and sk: "Suc (k - 1) = k" by simp_all
  have seg: "fst (backtrack pth ?i ?c 0) = drop k pth @ ?c"
    unfolding f si using kl(2) by (simp add: nths_drop)
  have a1: "arc_length (drop k pth) = (\<Sum>m = Suc k..?i. ?h m)"
    using arc_length_nths [OF k(2), of pth] kl(2) unfolding si by (simp add: nths_drop)
  have a0: "arc_length (drop (k - 1) pth) = (\<Sum>m = k..?i. ?h m)"
    using arc_length_nths [OF kl(4), of pth] kl(3) unfolding si sk by (simp add: nths_drop)
  have r: "redSegmentNear centerLat centerLon pth = Some (drop k pth @ ?c)"
    unfolding redSegmentNear_def Let_def seg using assms kl(1) by simp
  from k kl r s d b show ?thesis unfolding a0 [symmetric] a1 [symmetric] by auto
qed

lemma redSegmentNear_None_iff: "redSegmentNear centerLat centerLon pth = None \<longleftrightarrow> length pth < 2"
proof
  assume "redSegmentNear centerLat centerLon pth = None"
  show "length pth < 2"
  proof (rule ccontr)
    assume "\<not> length pth < 2"
    then have "2 \<le> length pth" by simp
    from redSegmentNear_backtracks [OF this, of centerLat centerLon]
      and \<open>redSegmentNear centerLat centerLon pth = None\<close>
    show False by auto
  qed
next
  assume "length pth < 2"
  then show "redSegmentNear centerLat centerLon pth = None" by (simp add: redSegmentNear_def)
qed









section \<open>The high threshold\<close>

lemma redSegments_handler:
  "redSegments (fst (handler event now timeStr st)) =
     (if snd (handler event now timeStr st) \<noteq> [] \<and>
         highThreshold (effectiveSensitivity st) \<le> acc_linear (reading event)
      then (case redSegmentNear (lat (position st)) (lon (position st)) (path st) of
              None \<Rightarrow> redSegments st
            | Some seg \<Rightarrow> redSegments st @ [seg])
      else redSegments st)"
  by (simp add: handler_def Let_def addRedSegmentNear_def split: option.splits)

lemma redSegments_handlePos [simp]: "redSegments (handlePos pos now st) = redSegments st"
  by (simp add: handlePos_def Let_def split: option.splits)

lemma app_step_redSegments_prefix: "prefix (redSegments st) (redSegments (fst (app_step st e)))"
  by (cases e) (simp_all add: redSegments_handler app_receive_def split: option.splits)

lemma app_run_redSegments_prefix: "prefix (redSegments st) (redSegments (fst (app_run st es)))"
proof (induction es arbitrary: st)
  case Nil
  then show ?case by simp
next
  case (Cons e es)
  have "prefix (redSegments st) (redSegments (fst (app_step st e)))"
    by (rule app_step_redSegments_prefix)
  also have "prefix (redSegments (fst (app_step st e)))
               (redSegments (fst (app_run (fst (app_step st e)) es)))"
    by (rule Cons.IH)
  finally show ?case by (simp add: split_beta Let_def)
qed

text \<open>
  Claim C7.  The high threshold is \<open>max 16 (sensitivity + 3)\<close>, never below the
  sensitivity.  The handler appends a red segment exactly when the sample produced a
  bump, its metric is at least the high threshold (equality included), and the path
  has at least two points; in every other case the list of red segments is as it was.
  Along every run of the component the list only grows at its end: the earlier list is
  a prefix of the later one.
\<close>

theorem red_segment_only_at_or_above_high_threshold:
  "highThreshold s = max 16 (s + 3) \<and> s \<le> highThreshold s \<and>
   redSegments (fst (handler event now timeStr st)) =
     (if snd (handler event now timeStr st) \<noteq> [] \<and>
         highThreshold (effectiveSensitivity st) \<le> acc_linear (reading event)
      then (case redSegmentNear (lat (position st)) (lon (position st)) (path st) of
              None \<Rightarrow> redSegments st
            | Some seg \<Rightarrow> redSegments st @ [seg])
      else redSegments st) \<and>
   (redSegments (fst (handler event now timeStr st)) \<noteq> redSegments st \<longrightarrow>
      snd (handler event now timeStr st) \<noteq> [] \<and>
      highThreshold (effectiveSensitivity st) \<le> acc_linear (reading event) \<and>
      effectiveSensitivity st < acc_linear (reading event) \<and>
      2 \<le> length (path st)) \<and>
   (snd (handler event now timeStr st) \<noteq> [] \<and>
    highThreshold (effectiveSensitivity st) \<le> acc_linear (reading event) \<and>
    2 \<le> length (path st) \<longrightarrow>
      length (redSegments (fst (handler event now timeStr st))) = Suc (length (redSegments st))) \<and>
   prefix (redSegments st) (redSegments (fst (app_run st es)))"
proof -
  have a: "highThreshold s = max 16 (s + 3) \<and> s \<le> highThreshold s"
    by (simp add: highThreshold_def)
  note f = redSegments_handler [of event now timeStr st]
  have n: "redSegmentNear (lat (position st)) (lon (position st)) (path st) = None \<longleftrightarrow>
      length (path st) < 2"
    by (rule redSegmentNear_None_iff)
  have b: "redSegments (fst (handler event now timeStr st)) \<noteq> redSegments st \<longrightarrow>
      snd (handler event now timeStr st) \<noteq> [] \<and>
      highThreshold (effectiveSensitivity st) \<le> acc_linear (reading event) \<and>
      effectiveSensitivity st < acc_linear (reading event) \<and>
      2 \<le> length (path st)"
    using n handler_fires_iff [of event now timeStr st] unfolding f
    by (auto split: if_splits option.splits)
  have c: "snd (handler event now timeStr st) \<noteq> [] \<and>
    highThreshold (effectiveSensitivity st) \<le> acc_linear (reading event) \<and>
    2 \<le> length (path st) \<longrightarrow>
      length (redSegments (fst (handler event now timeStr st))) = Suc (length (redSegments st))"
    using n unfolding f by (auto split: option.splits)
  from a f b c app_run_redSegments_prefix [of st es] show ?thesis by blast
qed
text \<open>
  A short session: two fixes, each with a native speed of 3 m/s (10.8 km/h, so the
  auto-tuned sensitivity is 12 and the high threshold 16), then detection switched on.
\<close>

lemma two_fix_session:
  "path (fst (app_run initial_app
      [GeoFix \<lparr>latitude = 0, longitude = 0, speed = Some 3\<rparr> 1700000000000,
       GeoFix \<lparr>latitude = 1 / 10000, longitude = 0, speed = Some 3\<rparr> 1700000001000,
       SetDetecting True])) = [(0, 0), (1 / 10000, 0)] \<and>
   effectiveSensitivity (fst (app_run initial_app
      [GeoFix \<lparr>latitude = 0, longitude = 0, speed = Some 3\<rparr> 1700000000000,
       GeoFix \<lparr>latitude = 1 / 10000, longitude = 0, speed = Some 3\<rparr> 1700000001000,
       SetDetecting True])) = 12 \<and>
   effectiveCooldown (fst (app_run initial_app
      [GeoFix \<lparr>latitude = 0, longitude = 0, speed = Some 3\<rparr> 1700000000000,
       GeoFix \<lparr>latitude = 1 / 10000, longitude = 0, speed = Some 3\<rparr> 1700000001000,
       SetDetecting True])) = 1800 \<and>
   lastBumpRef (fst (app_run initial_app
      [GeoFix \<lparr>latitude = 0, longitude = 0, speed = Some 3\<rparr> 1700000000000,
       GeoFix \<lparr>latitude = 1 / 10000, longitude = 0, speed = Some 3\<rparr> 1700000001000,
       SetDetecting True])) = 0 \<and>
   redSegments (fst (app_run initial_app
      [GeoFix \<lparr>latitude = 0, longitude = 0, speed = Some 3\<rparr> 1700000000000,
       GeoFix \<lparr>latitude = 1 / 10000, longitude = 0, speed = Some 3\<rparr> 1700000001000,
       SetDetecting True])) = []"
  by (simp add: handlePos_def appendPath_def speedUpdate_def initial_app_def Let_def
      effectiveSensitivity_def effectiveCooldown_def getAutoParams_def)

theorem red_segment_only_at_or_above_high_threshold_witness:
  "snd (handler (Some \<lparr>g_x = Some 0, g_y = Some 0, g_z = Some 29.81\<rparr>) 1700000005000 ''t''
     (fst (app_run initial_app
        [GeoFix \<lparr>latitude = 0, longitude = 0, speed = Some 3\<rparr> 1700000000000,
         GeoFix \<lparr>latitude = 1 / 10000, longitude = 0, speed = Some 3\<rparr> 1700000001000,
         SetDetecting True]))) \<noteq> [] \<and>
   highThreshold (effectiveSensitivity (fst (app_run initial_app
        [GeoFix \<lparr>latitude = 0, longitude = 0, speed = Some 3\<rparr> 1700000000000,
         GeoFix \<lparr>latitude = 1 / 10000, longitude = 0, speed = Some 3\<rparr> 1700000001000,
         SetDetecting True]))) \<le>
     acc_linear (reading (Some \<lparr>g_x = Some 0, g_y = Some 0, g_z = Some 29.81\<rparr>)) \<and>
   2 \<le> length (path (fst (app_run initial_app
        [GeoFix \<lparr>latitude = 0, longitude = 0, speed = Some 3\<rparr> 1700000000000,
         GeoFix \<lparr>latitude = 1 / 10000, longitude = 0, speed = Some 3\<rparr> 1700000001000,
         SetDetecting True]))) \<and>
   length (redSegments (fst (handler (Some \<lparr>g_x = Some 0, g_y = Some 0, g_z = Some 29.81\<rparr>)
     1700000005000 ''t''
     (fst (app_run initial_app
        [GeoFix \<lparr>latitude = 0, longitude = 0, speed = Some 3\<rparr> 1700000000000,
         GeoFix \<lparr>latitude = 1 / 10000, longitude = 0, speed = Some 3\<rparr> 1700000001000,
         SetDetecting True]))))) = Suc 0"
proof -
  let ?s = "fst (app_run initial_app
        [GeoFix \<lparr>latitude = 0, longitude = 0, speed = Some 3\<rparr> 1700000000000,
         GeoFix \<lparr>latitude = 1 / 10000, longitude = 0, speed = Some 3\<rparr> 1700000001000,
         SetDetecting True])"
  let ?e = "Some \<lparr>g_x = Some 0, g_y = Some 0, g_z = Some 29.81\<rparr>"
  note s = two_fix_session
  have p: "path ?s = [(0, 0), (1 / 10000, 0)]" and es: "effectiveSensitivity ?s = 12"
    and ec: "effectiveCooldown ?s = 1800" and lb: "lastBumpRef ?s = 0"
    and rs: "redSegments ?s = []"
    using s by blast+
  have lin: "acc_linear (reading ?e) = 20" unfolding linear_vertical by simp
  have fired: "snd (handler ?e 1700000005000 ''t'' ?s) \<noteq> []"
    unfolding handler_fires_iff es ec lb lin by simp
  have high: "highThreshold (effectiveSensitivity ?s) \<le> acc_linear (reading ?e)"
    unfolding es lin by (simp add: highThreshold_def)
  have two: "2 \<le> length (path ?s)" unfolding p by simp
  note t = red_segment_only_at_or_above_high_threshold [of _ ?e 1700000005000 "''t''" ?s]
  from t fired high two
  have "length (redSegments (fst (handler ?e 1700000005000 ''t'' ?s))) = Suc (length (redSegments ?s))"
    by blast
  then have "length (redSegments (fst (handler ?e 1700000005000 ''t'' ?s))) = Suc 0"
    unfolding rs by simp
  with fired high two show ?thesis by blast
qed

text \<open>
  A session with the manual sliders in force: auto-tune switched off and the sensitivity
  set to 14 (so the high threshold is 17), two fixes, then detection switched on.
\<close>

lemma manual_session:
  "path (fst (app_run initial_app
      [SetAutoTune False, SetManualSensitivity 14,
       GeoFix \<lparr>latitude = 0, longitude = 0, speed = Some 3\<rparr> 1700000000000,
       GeoFix \<lparr>latitude = 1 / 10000, longitude = 0, speed = Some 3\<rparr> 1700000001000,
       SetDetecting True])) = [(0, 0), (1 / 10000, 0)] \<and>
   effectiveSensitivity (fst (app_run initial_app
      [SetAutoTune False, SetManualSensitivity 14,
       GeoFix \<lparr>latitude = 0, longitude = 0, speed = Some 3\<rparr> 1700000000000,
       GeoFix \<lparr>latitude = 1 / 10000, longitude = 0, speed = Some 3\<rparr> 1700000001000,
       SetDetecting True])) = 14 \<and>
   effectiveCooldown (fst (app_run initial_app
      [SetAutoTune False, SetManualSensitivity 14,
       GeoFix \<lparr>latitude = 0, longitude = 0, speed = Some 3\<rparr> 1700000000000,
       GeoFix \<lparr>latitude = 1 / 10000, longitude = 0, speed = Some 3\<rparr> 1700000001000,
       SetDetecting True])) = 2000 \<and>
   lastBumpRef (fst (app_run initial_app
      [SetAutoTune False, SetManualSensitivity 14,
       GeoFix \<lparr>latitude = 0, longitude = 0, speed = Some 3\<rparr> 1700000000000,
       GeoFix \<lparr>latitude = 1 / 10000, longitude = 0, speed = Some 3\<rparr> 1700000001000,
       SetDetecting True])) = 0 \<and>
   redSegments (fst (app_run initial_app
      [SetAutoTune False, SetManualSensitivity 14,
       GeoFix \<lparr>latitude = 0, longitude = 0, speed = Some 3\<rparr> 1700000000000,
       GeoFix \<lparr>latitude = 1 / 10000, longitude = 0, speed = Some 3\<rparr> 1700000001000,
       SetDetecting True])) = []"
  by (simp add: handlePos_def appendPath_def speedUpdate_def initial_app_def Let_def
      effectiveSensitivity_def effectiveCooldown_def)

text \<open>
  With ``above the high threshold'' read strictly the statement fails: in that session
  a vertical reading of 26.81 has the metric 26.81 - 9.81 = 17, which is the high
  threshold and not above it, and the sample produces a bump and a red segment.
\<close>

theorem red_segment_at_high_threshold_counterexample:
  "acc_linear (reading (Some \<lparr>g_x = Some 0, g_y = Some 0, g_z = Some 26.81\<rparr>)) = 17 \<and>
   highThreshold (effectiveSensitivity (fst (app_run initial_app
      [SetAutoTune False, SetManualSensitivity 14,
       GeoFix \<lparr>latitude = 0, longitude = 0, speed = Some 3\<rparr> 1700000000000,
       GeoFix \<lparr>latitude = 1 / 10000, longitude = 0, speed = Some 3\<rparr> 1700000001000,
       SetDetecting True]))) = 17 \<and>
   snd (handler (Some \<lparr>g_x = Some 0, g_y = Some 0, g_z = Some 26.81\<rparr>)
     1700000005000 ''t''
     (fst (app_run initial_app
        [SetAutoTune False, SetManualSensitivity 14,
         GeoFix \<lparr>latitude = 0, longitude = 0, speed = Some 3\<rparr> 1700000000000,
         GeoFix \<lparr>latitude = 1 / 10000, longitude = 0, speed = Some 3\<rparr> 1700000001000,
         SetDetecting True]))) \<noteq> [] \<and>
   redSegments (fst (app_run initial_app
      [SetAutoTune False, SetManualSensitivity 14,
       GeoFix \<lparr>latitude = 0, longitude = 0, speed = Some 3\<rparr> 1700000000000,
       GeoFix \<lparr>latitude = 1 / 10000, longitude = 0, speed = Some 3\<rparr> 1700000001000,
       SetDetecting True])) = [] \<and>
   length (redSegments (fst (handler (Some \<lparr>g_x = Some 0, g_y = Some 0, g_z = Some 26.81\<rparr>)
     1700000005000 ''t''
     (fst (app_run initial_app
        [SetAutoTune False, SetManualSensitivity 14,
         GeoFix \<lparr>latitude = 0, longitude = 0, speed = Some 3\<rparr> 1700000000000,
         GeoFix \<lparr>latitude = 1 / 10000, longitude = 0, speed = Some 3\<rparr> 1700000001000,
         SetDetecting True]))))) = Suc 0"
proof -
  let ?s = "fst (app_run initial_app
        [SetAutoTune False, SetManualSensitivity 14,
         GeoFix \<lparr>latitude = 0, longitude = 0, speed = Some 3\<rparr> 1700000000000,
         GeoFix \<lparr>latitude = 1 / 10000, longitude = 0, speed = Some 3\<rparr> 1700000001000,
         SetDetecting True])"
  let ?e = "Some \<lparr>g_x = Some 0, g_y = Some 0, g_z = Some 26.81\<rparr>"
  note s = manual_session
  have p: "path ?s = [(0, 0), (1 / 10000, 0)]" and es: "effectiveSensitivity ?s = 14"
    and ec: "effectiveCooldown ?s = 2000" and lb: "lastBumpRef ?s = 0"
    and rs: "redSegments ?s = []"
    using s by blast+
  have lin: "acc_linear (reading ?e) = 17" unfolding linear_vertical by simp
  have hi: "highThreshold (effectiveSensitivity ?s) = 17"
    unfolding es by (simp add: highThreshold_def)
  have fired: "snd (handler ?e 1700000005000 ''t'' ?s) \<noteq> []"
    unfolding handler_fires_iff es ec lb lin by simp
  have "redSegmentNear (lat (position ?s)) (lon (position ?s)) (path ?s) \<noteq> None"
    unfolding redSegmentNear_None_iff p by simp
  then obtain seg where
    seg: "redSegmentNear (lat (position ?s)) (lon (position ?s)) (path ?s) = Some seg"
    by blast
  have "redSegments (fst (handler ?e 1700000005000 ''t'' ?s)) = redSegments ?s @ [seg]"
    unfolding redSegments_handler [of ?e 1700000005000 "''t''" ?s] seg hi lin
    using fired by simp
  then have "length (redSegments (fst (handler ?e 1700000005000 ''t'' ?s))) = Suc 0"
    unfolding rs by simp
  with lin hi fired rs show ?thesis by blast
qed

end
